theory Spec2Isabelle
  imports Main "HOL-Library.AList"
begin

section \<open>Result<S, F>: a success value, a failure value, or nothing\<close>

text \<open>
  The class template \<^verbatim>\<open>aslib::Result<S, F>\<close> keeps a raw character buffer
  \<^verbatim>\<open>storage_\<close> and a discriminant \<^verbatim>\<open>state_\<close>. Every member function is modelled
  as a function on a memory of \<^verbatim>\<open>Result\<close> objects indexed by their address, so that
  \<^verbatim>\<open>this\<close>, a reference to another \<^verbatim>\<open>Result\<close> and a pointer into a \<^verbatim>\<open>Result\<close>'s own
  buffer may alias exactly as they may in the program. Isabelle does not accept
  names that end in an underscore, so the members \<^verbatim>\<open>storage_\<close> and \<^verbatim>\<open>state_\<close> are
  the fields \<open>storage\<close> and \<open>state\<close>.
\<close>

type_synonym addr = nat

text \<open>The private enumeration \<^verbatim>\<open>State\<close>.\<close>

datatype State = uninit | succeeded | failed

text \<open>
  What the bytes of \<^verbatim>\<open>storage_\<close> currently are: no object (\<open>Raw\<close>), an
  object of \<^verbatim>\<open>SucceededType\<close>, or an object of \<^verbatim>\<open>FailedType\<close>.
\<close>

datatype ('s, 'f) buffer = Raw | AsS 's | AsF 'f

record ('s, 'f) Result =
  storage :: "('s, 'f) buffer"
  state :: State

text \<open>
  The template arguments are arbitrary types. What the class needs of them is
  their value-initialised object (\<^verbatim>\<open>S()\<close>, \<^verbatim>\<open>F()\<close>), the value a moved-from object
  is left with, and \<^verbatim>\<open>std::is_pod\<close>. Copy construction and copy assignment
  produce an equal value.
\<close>

record ('s, 'f) payload_types =
  S_default :: 's
  F_default :: 'f
  S_moved_from :: "'s \<Rightarrow> 's"
  F_moved_from :: "'f \<Rightarrow> 'f"
  S_is_pod :: bool
  F_is_pod :: bool

text \<open>
  The calls the class makes on a payload object are recorded in a trace: which
  special member function ran, on the buffer of which \<^verbatim>\<open>Result\<close>, and for which
  of the two payload types (\<open>succeeded\<close> stands for \<^verbatim>\<open>SucceededType\<close>, \<open>failed\<close> for
  \<^verbatim>\<open>FailedType\<close>). \<open>PodRelease\<close> is \<^verbatim>\<open>Destoroyer<T>\<close> run for a POD type: the
  payload is given up and no destructor is called.
\<close>

datatype call = DefaultCtor | CopyCtor | MoveCtor | CopyAssign | MoveAssign | Dtor | PodRelease

type_synonym event = "call \<times> addr \<times> State"

record ('s, 'f) rworld =
  mem :: "addr \<Rightarrow> ('s, 'f) Result"
  trace :: "event list"

text \<open>
  The \<^verbatim>\<open>void *\<close> arguments of the private functions, and the references of the
  public ones: a pointer to an object outside every \<^verbatim>\<open>Result\<close> (given by its
  value), or a pointer to the buffer of the \<^verbatim>\<open>Result\<close> at an address.
\<close>

datatype ('s, 'f) src_ptr = ExtS 's | ExtF 'f | StorageOf addr

text \<open>
  The exceptions of the class, both declared as \<^verbatim>\<open>struct ... : std::runtime_error\<close>.
  \<open>UndefinedBehaviour\<close> is no exception: it marks an access the language leaves
  undefined (reading the buffer as a type it does not hold).
\<close>

datatype error = CantDereference | NotHaveFailedObject | UndefinedBehaviour

fun base_class :: "error \<Rightarrow> string option" where
  "base_class CantDereference = Some ''std::runtime_error''"
| "base_class NotHaveFailedObject = Some ''std::runtime_error''"
| "base_class UndefinedBehaviour = None"

fun what :: "error \<Rightarrow> string" where
  "what CantDereference = ''Failed result value.''"
| "what NotHaveFailedObject = ''Not have the Failed object.''"
| "what UndefinedBehaviour = []"

text \<open>A handler \<^verbatim>\<open>catch(std::runtime_error &)\<close> catches the classes derived from it.\<close>

definition caught_as_runtime_error :: "error \<Rightarrow> bool" where
  "caught_as_runtime_error e = (base_class e = Some ''std::runtime_error'')"

subsection \<open>Memory accesses\<close>

definition read_S :: "('s, 'f) rworld \<Rightarrow> ('s, 'f) src_ptr \<Rightarrow> 's option" where
  "read_S w p =
     (case p of
        ExtS s \<Rightarrow> Some s
      | ExtF f \<Rightarrow> None
      | StorageOf a \<Rightarrow> (case storage (mem w a) of AsS s \<Rightarrow> Some s | _ \<Rightarrow> None))"

definition read_F :: "('s, 'f) rworld \<Rightarrow> ('s, 'f) src_ptr \<Rightarrow> 'f option" where
  "read_F w p =
     (case p of
        ExtS s \<Rightarrow> None
      | ExtF f \<Rightarrow> Some f
      | StorageOf a \<Rightarrow> (case storage (mem w a) of AsF f \<Rightarrow> Some f | _ \<Rightarrow> None))"

definition put_storage :: "('s, 'f) rworld \<Rightarrow> addr \<Rightarrow> ('s, 'f) buffer \<Rightarrow> ('s, 'f) rworld" where
  "put_storage w a b = w\<lparr>mem := (mem w)(a := (mem w a)\<lparr>storage := b\<rparr>)\<rparr>"

definition put_state :: "('s, 'f) rworld \<Rightarrow> addr \<Rightarrow> State \<Rightarrow> ('s, 'f) rworld" where
  "put_state w a x = w\<lparr>mem := (mem w)(a := (mem w a)\<lparr>state := x\<rparr>)\<rparr>"

definition record_call :: "('s, 'f) rworld \<Rightarrow> event \<Rightarrow> ('s, 'f) rworld" where
  "record_call w e = w\<lparr>trace := trace w @ [e]\<rparr>"

text \<open>
  What \<^verbatim>\<open>std::move\<close> of the object behind a pointer leaves there. An object outside
  every \<^verbatim>\<open>Result\<close> is not part of the memory, so only a buffer changes.
\<close>

definition moved_out_S ::
  "('s, 'f) payload_types \<Rightarrow> ('s, 'f) rworld \<Rightarrow> ('s, 'f) src_ptr \<Rightarrow> 's \<Rightarrow> ('s, 'f) rworld" where
  "moved_out_S T w p s =
     (case p of StorageOf a \<Rightarrow> put_storage w a (AsS (S_moved_from T s)) | _ \<Rightarrow> w)"

definition moved_out_F ::
  "('s, 'f) payload_types \<Rightarrow> ('s, 'f) rworld \<Rightarrow> ('s, 'f) src_ptr \<Rightarrow> 'f \<Rightarrow> ('s, 'f) rworld" where
  "moved_out_F T w p f =
     (case p of StorageOf a \<Rightarrow> put_storage w a (AsF (F_moved_from T f)) | _ \<Rightarrow> w)"

subsection \<open>The private member functions\<close>

text \<open>
  \<^verbatim>\<open>allocate(const void *src, State srcState)\<close>: placement copy construction. The
  \<^verbatim>\<open>switch\<close> has no case for \<open>uninit\<close>. A result of \<open>None\<close> is undefined
  behaviour: the source is read as a type it does not hold.
\<close>

definition allocate ::
  "('s, 'f) rworld \<Rightarrow> addr \<Rightarrow> ('s, 'f) src_ptr \<Rightarrow> State \<Rightarrow> ('s, 'f) rworld option" where
  "allocate w this src srcState =
     map_option (\<lambda>w1. put_state w1 this srcState)
       (case srcState of
          succeeded \<Rightarrow>
            map_option (\<lambda>s. record_call (put_storage w this (AsS s)) (CopyCtor, this, succeeded))
              (read_S w src)
        | failed \<Rightarrow>
            map_option (\<lambda>f. record_call (put_storage w this (AsF f)) (CopyCtor, this, failed))
              (read_F w src)
        | uninit \<Rightarrow> Some w)"

text \<open>
  \<^verbatim>\<open>allocate(State state)\<close>: placement default construction, after
  \<^verbatim>\<open>assert(state != uninit)\<close>; a failed assertion is \<open>None\<close>.
\<close>

definition allocate_default ::
  "('s, 'f) payload_types \<Rightarrow> ('s, 'f) rworld \<Rightarrow> addr \<Rightarrow> State \<Rightarrow> ('s, 'f) rworld option" where
  "allocate_default T w this st =
     (if st = uninit then None
      else Some (put_state
        (case st of
           succeeded \<Rightarrow> record_call (put_storage w this (AsS (S_default T))) (DefaultCtor, this, succeeded)
         | failed \<Rightarrow> record_call (put_storage w this (AsF (F_default T))) (DefaultCtor, this, failed)
         | uninit \<Rightarrow> w)
        this st))"

text \<open>
  \<^verbatim>\<open>allocate_move(void *src, State srcState)\<close>: placement move construction; the
  new object takes the value and the source is left moved-from.
\<close>

definition allocate_move ::
  "('s, 'f) payload_types \<Rightarrow> ('s, 'f) rworld \<Rightarrow> addr \<Rightarrow> ('s, 'f) src_ptr \<Rightarrow> State
     \<Rightarrow> ('s, 'f) rworld option" where
  "allocate_move T w this src srcState =
     map_option (\<lambda>w1. put_state w1 this srcState)
       (case srcState of
          succeeded \<Rightarrow>
            map_option
              (\<lambda>s. moved_out_S T (record_call (put_storage w this (AsS s)) (MoveCtor, this, succeeded)) src s)
              (read_S w src)
        | failed \<Rightarrow>
            map_option
              (\<lambda>f. moved_out_F T (record_call (put_storage w this (AsF f)) (MoveCtor, this, failed)) src f)
              (read_F w src)
        | uninit \<Rightarrow> Some w)"

text \<open>
  \<^verbatim>\<open>Destoroyer<T>::operator()\<close>: nothing for a POD type, \<^verbatim>\<open>~T()\<close> otherwise, after
  which the buffer holds no object.
\<close>

definition Destoroyer :: "bool \<Rightarrow> ('s, 'f) rworld \<Rightarrow> addr \<Rightarrow> State \<Rightarrow> ('s, 'f) rworld" where
  "Destoroyer isPod w this k =
     (if isPod then record_call w (PodRelease, this, k)
      else record_call (put_storage w this Raw) (Dtor, this, k))"

text \<open>\<^verbatim>\<open>destroy()\<close>.\<close>

definition destroy :: "('s, 'f) payload_types \<Rightarrow> ('s, 'f) rworld \<Rightarrow> addr \<Rightarrow> ('s, 'f) rworld" where
  "destroy T w this =
     put_state
       (case state (mem w this) of
          succeeded \<Rightarrow> Destoroyer (S_is_pod T) w this succeeded
        | failed \<Rightarrow> Destoroyer (F_is_pod T) w this failed
        | uninit \<Rightarrow> w)
       this uninit"

text \<open>
  The assignments \<^verbatim>\<open>*reinterpret_cast<T *>(storage_) = *static_cast<const T *>(src)\<close>
  and their \<^verbatim>\<open>std::move\<close> variants. The source is read when the assignment
  runs, and the buffer must hold an object of the type.
\<close>

definition copy_assign_S :: "('s, 'f) rworld \<Rightarrow> addr \<Rightarrow> ('s, 'f) src_ptr \<Rightarrow> ('s, 'f) rworld option" where
  "copy_assign_S w this src =
     (case read_S w src of
        None \<Rightarrow> None
      | Some s \<Rightarrow>
          (case storage (mem w this) of
             AsS old \<Rightarrow> Some (record_call (put_storage w this (AsS s)) (CopyAssign, this, succeeded))
           | _ \<Rightarrow> None))"

definition copy_assign_F :: "('s, 'f) rworld \<Rightarrow> addr \<Rightarrow> ('s, 'f) src_ptr \<Rightarrow> ('s, 'f) rworld option" where
  "copy_assign_F w this src =
     (case read_F w src of
        None \<Rightarrow> None
      | Some f \<Rightarrow>
          (case storage (mem w this) of
             AsF old \<Rightarrow> Some (record_call (put_storage w this (AsF f)) (CopyAssign, this, failed))
           | _ \<Rightarrow> None))"

definition move_assign_S ::
  "('s, 'f) payload_types \<Rightarrow> ('s, 'f) rworld \<Rightarrow> addr \<Rightarrow> ('s, 'f) src_ptr \<Rightarrow> ('s, 'f) rworld option" where
  "move_assign_S T w this src =
     (case read_S w src of
        None \<Rightarrow> None
      | Some s \<Rightarrow>
          (case storage (mem w this) of
             AsS old \<Rightarrow>
               Some (moved_out_S T (record_call (put_storage w this (AsS s)) (MoveAssign, this, succeeded)) src s)
           | _ \<Rightarrow> None))"

definition move_assign_F ::
  "('s, 'f) payload_types \<Rightarrow> ('s, 'f) rworld \<Rightarrow> addr \<Rightarrow> ('s, 'f) src_ptr \<Rightarrow> ('s, 'f) rworld option" where
  "move_assign_F T w this src =
     (case read_F w src of
        None \<Rightarrow> None
      | Some f \<Rightarrow>
          (case storage (mem w this) of
             AsF old \<Rightarrow>
               Some (moved_out_F T (record_call (put_storage w this (AsF f)) (MoveAssign, this, failed)) src f)
           | _ \<Rightarrow> None))"

text \<open>\<^verbatim>\<open>substitute(const void *src, State srcState)\<close>.\<close>

definition substitute ::
  "('s, 'f) payload_types \<Rightarrow> ('s, 'f) rworld \<Rightarrow> addr \<Rightarrow> ('s, 'f) src_ptr \<Rightarrow> State
     \<Rightarrow> ('s, 'f) rworld option" where
  "substitute T w this src srcState =
     (let w1 = (if state (mem w this) \<noteq> uninit then destroy T w this else w) in
      case (if srcState \<noteq> uninit then allocate_default T w1 this srcState else Some w1) of
        None \<Rightarrow> None
      | Some w2 \<Rightarrow>
          map_option (\<lambda>w3. put_state w3 this srcState)
            (case srcState of
               succeeded \<Rightarrow> copy_assign_S w2 this src
             | failed \<Rightarrow> copy_assign_F w2 this src
             | uninit \<Rightarrow> Some w2))"

text \<open>\<^verbatim>\<open>substitute_move(void *src, State srcState)\<close>.\<close>

definition substitute_move ::
  "('s, 'f) payload_types \<Rightarrow> ('s, 'f) rworld \<Rightarrow> addr \<Rightarrow> ('s, 'f) src_ptr \<Rightarrow> State
     \<Rightarrow> ('s, 'f) rworld option" where
  "substitute_move T w this src srcState =
     (let w1 = (if state (mem w this) \<noteq> uninit then destroy T w this else w) in
      case (if srcState \<noteq> uninit then allocate_default T w1 this srcState else Some w1) of
        None \<Rightarrow> None
      | Some w2 \<Rightarrow>
          map_option (\<lambda>w3. put_state w3 this srcState)
            (case srcState of
               succeeded \<Rightarrow> move_assign_S T w2 this src
             | failed \<Rightarrow> move_assign_F T w2 this src
             | uninit \<Rightarrow> Some w2))"

subsection \<open>Constructors and destructor\<close>

text \<open>\<^verbatim>\<open>Result() : state_(uninit) {}\<close>\<close>

definition Result_default :: "('s, 'f) rworld \<Rightarrow> addr \<Rightarrow> ('s, 'f) rworld" where
  "Result_default w this = put_state w this uninit"

text \<open>\<^verbatim>\<open>Result(const SucceededType &src)\<close> and \<^verbatim>\<open>Result(SucceededType &&src)\<close>\<close>

definition Result_S :: "('s, 'f) rworld \<Rightarrow> addr \<Rightarrow> ('s, 'f) src_ptr \<Rightarrow> ('s, 'f) rworld option" where
  "Result_S w this src = allocate w this src succeeded"

definition Result_S_move ::
  "('s, 'f) payload_types \<Rightarrow> ('s, 'f) rworld \<Rightarrow> addr \<Rightarrow> ('s, 'f) src_ptr \<Rightarrow> ('s, 'f) rworld option" where
  "Result_S_move T w this src = allocate_move T w this src succeeded"

text \<open>\<^verbatim>\<open>Result(const FailedType &src)\<close> and \<^verbatim>\<open>Result(FailedType &&src)\<close>\<close>

definition Result_F :: "('s, 'f) rworld \<Rightarrow> addr \<Rightarrow> ('s, 'f) src_ptr \<Rightarrow> ('s, 'f) rworld option" where
  "Result_F w this src = allocate w this src failed"

definition Result_F_move ::
  "('s, 'f) payload_types \<Rightarrow> ('s, 'f) rworld \<Rightarrow> addr \<Rightarrow> ('s, 'f) src_ptr \<Rightarrow> ('s, 'f) rworld option" where
  "Result_F_move T w this src = allocate_move T w this src failed"

text \<open>
  \<^verbatim>\<open>Result(const Result &src)\<close> has no member initialiser: when it returns early,
  the memory of the new object is what it was before the constructor ran.
\<close>

definition Result_copy :: "('s, 'f) rworld \<Rightarrow> addr \<Rightarrow> addr \<Rightarrow> ('s, 'f) rworld option" where
  "Result_copy w this src =
     (if state (mem w src) = uninit then Some w
      else allocate w this (StorageOf src) (state (mem w src)))"

text \<open>\<^verbatim>\<open>Result(Result &&src) : state_(uninit)\<close>\<close>

definition Result_move ::
  "('s, 'f) payload_types \<Rightarrow> ('s, 'f) rworld \<Rightarrow> addr \<Rightarrow> addr \<Rightarrow> ('s, 'f) rworld option" where
  "Result_move T w this src =
     (let w0 = put_state w this uninit in
      if state (mem w0 src) = uninit then Some w0
      else allocate_move T w0 this (StorageOf src) (state (mem w0 src)))"

text \<open>\<^verbatim>\<open>~Result() { destroy(); }\<close>\<close>

definition Result_dtor :: "('s, 'f) payload_types \<Rightarrow> ('s, 'f) rworld \<Rightarrow> addr \<Rightarrow> ('s, 'f) rworld" where
  "Result_dtor T w this = destroy T w this"

subsection \<open>Observers\<close>

text \<open>\<^verbatim>\<open>operator bool() const\<close>\<close>

definition opBool :: "('s, 'f) Result \<Rightarrow> bool" where
  "opBool r = (state r = succeeded)"

text \<open>
  \<^verbatim>\<open>operator*() const\<close>; the overload without \<^verbatim>\<open>const\<close> calls it. The reference
  it returns is given by the value of the object it refers to.
\<close>

definition opStar :: "('s, 'f) Result \<Rightarrow> error + 's" where
  "opStar r =
     (if \<not> opBool r then Inl CantDereference
      else (case storage r of AsS s \<Rightarrow> Inr s | _ \<Rightarrow> Inl UndefinedBehaviour))"

text \<open>\<^verbatim>\<open>operator->() const\<close>: the pointer to the buffer of this object.\<close>

definition opArrow :: "('s, 'f) rworld \<Rightarrow> addr \<Rightarrow> error + ('s, 'f) src_ptr" where
  "opArrow w this =
     (if \<not> opBool (mem w this) then Inl CantDereference else Inr (StorageOf this))"

text \<open>\<^verbatim>\<open>fail() const\<close>; the overload without \<^verbatim>\<open>const\<close> calls it.\<close>

definition fail :: "('s, 'f) Result \<Rightarrow> error + 'f" where
  "fail r =
     (if state r = failed
      then (case storage r of AsF f \<Rightarrow> Inr f | _ \<Rightarrow> Inl UndefinedBehaviour)
      else Inl NotHaveFailedObject)"

subsection \<open>Assignment operators\<close>

definition opAssign_S ::
  "('s, 'f) payload_types \<Rightarrow> ('s, 'f) rworld \<Rightarrow> addr \<Rightarrow> ('s, 'f) src_ptr \<Rightarrow> ('s, 'f) rworld option" where
  "opAssign_S T w this rhs = substitute T w this rhs succeeded"

definition opAssign_S_move ::
  "('s, 'f) payload_types \<Rightarrow> ('s, 'f) rworld \<Rightarrow> addr \<Rightarrow> ('s, 'f) src_ptr \<Rightarrow> ('s, 'f) rworld option" where
  "opAssign_S_move T w this rhs = substitute_move T w this rhs succeeded"

definition opAssign_F ::
  "('s, 'f) payload_types \<Rightarrow> ('s, 'f) rworld \<Rightarrow> addr \<Rightarrow> ('s, 'f) src_ptr \<Rightarrow> ('s, 'f) rworld option" where
  "opAssign_F T w this rhs = substitute T w this rhs failed"

definition opAssign_F_move ::
  "('s, 'f) payload_types \<Rightarrow> ('s, 'f) rworld \<Rightarrow> addr \<Rightarrow> ('s, 'f) src_ptr \<Rightarrow> ('s, 'f) rworld option" where
  "opAssign_F_move T w this rhs = substitute_move T w this rhs failed"

text \<open>
  \<^verbatim>\<open>operator=(const Result &rhs)\<close> and \<^verbatim>\<open>operator=(Result &&rhs)\<close>: the state of
  \<^verbatim>\<open>rhs\<close> is passed by value, its buffer by pointer.
\<close>

definition opAssign_Result ::
  "('s, 'f) payload_types \<Rightarrow> ('s, 'f) rworld \<Rightarrow> addr \<Rightarrow> addr \<Rightarrow> ('s, 'f) rworld option" where
  "opAssign_Result T w this rhs = substitute T w this (StorageOf rhs) (state (mem w rhs))"

definition opAssign_Result_move ::
  "('s, 'f) payload_types \<Rightarrow> ('s, 'f) rworld \<Rightarrow> addr \<Rightarrow> addr \<Rightarrow> ('s, 'f) rworld option" where
  "opAssign_Result_move T w this rhs = substitute_move T w this (StorageOf rhs) (state (mem w rhs))"

section \<open>DeepCopyPtr<Type>: an owning pointer that copies its pointee\<close>

text \<open>
  A heap object carries the class it was allocated as (the type named in the
  \<^verbatim>\<open>new\<close> expression that made it) and its value. The heap is a list of live
  objects by address; \<^verbatim>\<open>new\<close> returns an address above every live one, and may
  return again the address of an object deleted before.
\<close>

record ('c, 'v) obj =
  dyn :: 'c
  val :: 'v

text \<open>
  The members \<^verbatim>\<open>ptr_\<close> and \<^verbatim>\<open>deleter_\<close>. A null pointer is \<open>None\<close>. The deleter
  is a \<^verbatim>\<open>Deleter<TargetType>\<close> object, which has no member but its type:
  \<open>Some X\<close> is a pointer to a \<^verbatim>\<open>Deleter<X>\<close>.
\<close>

record 'c DeepCopyPtr =
  ptr :: "addr option"
  deleter :: "'c option"

text \<open>
  A \<^verbatim>\<open>delete\<close> expression that ran on an object: the address, the static type of
  the expression (the class whose destructor is named), and the class the
  object had been allocated as.
\<close>

record 'c deletion =
  target :: addr
  as_type :: 'c
  dyn_type :: 'c

text \<open>
  The memory: the heap, the \<^verbatim>\<open>DeepCopyPtr\<close> objects by their own address (so
  that \<^verbatim>\<open>this == &rhs\<close> can be decided), and the deletions so far in order.
  The \<^verbatim>\<open>DeepCopyPtr\<close> objects are variables of their own: none of them is a
  member of a heap object, so deleting a pointee destroys no \<^verbatim>\<open>DeepCopyPtr\<close>.
\<close>

record ('c, 'v) pworld =
  heap :: "(addr \<times> ('c, 'v) obj) list"
  vars :: "addr \<Rightarrow> 'c DeepCopyPtr"
  deleted :: "'c deletion list"

definition fresh :: "(addr \<times> 'a) list \<Rightarrow> addr" where
  "fresh h = Suc (foldr max (map fst h) 0)"

text \<open>
  \<^verbatim>\<open>new X(*p)\<close>: the copy constructor of the class \<open>X\<close>, given as \<open>cc X\<close>, runs on
  the object behind \<open>p\<close> seen as an \<open>X\<close>, and the new object is an \<open>X\<close>. Reading
  an address that holds no live object is undefined behaviour, \<open>None\<close>.
\<close>

definition new_copy ::
  "('c \<Rightarrow> 'v \<Rightarrow> 'v) \<Rightarrow> 'c \<Rightarrow> ('c, 'v) pworld \<Rightarrow> addr \<Rightarrow> (addr \<times> ('c, 'v) pworld) option" where
  "new_copy cc X w p =
     (case map_of (heap w) p of
        None \<Rightarrow> None
      | Some ob \<Rightarrow>
          Some (fresh (heap w),
                w\<lparr>heap := (fresh (heap w), \<lparr>dyn = X, val = cc X (val ob)\<rparr>) # heap w\<rparr>))"

text \<open>
  \<^verbatim>\<open>Deleter<TargetType>::operator()(void *p)\<close>, that is
  \<^verbatim>\<open>delete static_cast<TargetType *>(p)\<close>: nothing for a null pointer; deleting
  what is not a live object is undefined behaviour, \<open>None\<close>.
\<close>

definition Deleter_call ::
  "'c \<Rightarrow> ('c, 'v) pworld \<Rightarrow> addr option \<Rightarrow> ('c, 'v) pworld option" where
  "Deleter_call X w p =
     (case p of
        None \<Rightarrow> Some w
      | Some a \<Rightarrow>
          (case map_of (heap w) a of
             None \<Rightarrow> None
           | Some ob \<Rightarrow>
               Some (w\<lparr>heap := AList.delete a (heap w),
                       deleted := deleted w @ [\<lparr>target = a, as_type = X, dyn_type = dyn ob\<rparr>]\<rparr>)))"

definition put_var :: "('c, 'v) pworld \<Rightarrow> addr \<Rightarrow> 'c DeepCopyPtr \<Rightarrow> ('c, 'v) pworld" where
  "put_var w a d = w\<lparr>vars := (vars w)(a := d)\<rparr>"

subsection \<open>doDelete and the temporaries\<close>

text \<open>
  \<^verbatim>\<open>doDelete()\<close> on an object given by value, as it runs in the destructor of a
  temporary, which no reference can alias.
\<close>

definition doDelete_obj ::
  "'c DeepCopyPtr \<Rightarrow> ('c, 'v) pworld \<Rightarrow> ('c DeepCopyPtr \<times> ('c, 'v) pworld) option" where
  "doDelete_obj d w =
     (case deleter d of
        None \<Rightarrow> Some (d, w)
      | Some X \<Rightarrow>
          map_option (\<lambda>w1. (\<lparr>ptr = None, deleter = None\<rparr>, w1)) (Deleter_call X w (ptr d)))"

text \<open>\<^verbatim>\<open>doDelete()\<close> on the object at \<^verbatim>\<open>this\<close>.\<close>

definition doDelete :: "('c, 'v) pworld \<Rightarrow> addr \<Rightarrow> ('c, 'v) pworld option" where
  "doDelete w this =
     map_option (\<lambda>(d, w1). put_var w1 this d) (doDelete_obj (vars w this) w)"

text \<open>
  The member initialisers \<^verbatim>\<open>ptr_(p), deleter_(p ? new Deleter<X>() : 0)\<close> shared by
  \<^verbatim>\<open>DeepCopyPtr(element_type *p)\<close> (with \<open>X\<close> the element type) and the template
  \<^verbatim>\<open>DeepCopyPtr(DerivedType *p)\<close> (with \<open>X\<close> the static type of the argument).
\<close>

definition from_ptr :: "'c \<Rightarrow> addr option \<Rightarrow> 'c DeepCopyPtr" where
  "from_ptr X p = \<lparr>ptr = p, deleter = (if p \<noteq> None then Some X else None)\<rparr>"

subsection \<open>Constructors and destructor\<close>

definition DeepCopyPtr_default :: "('c, 'v) pworld \<Rightarrow> addr \<Rightarrow> ('c, 'v) pworld" where
  "DeepCopyPtr_default w this = put_var w this \<lparr>ptr = None, deleter = None\<rparr>"

definition DeepCopyPtr_ptr :: "'c \<Rightarrow> ('c, 'v) pworld \<Rightarrow> addr \<Rightarrow> addr option \<Rightarrow> ('c, 'v) pworld" where
  "DeepCopyPtr_ptr T w this p = put_var w this (from_ptr T p)"

definition DeepCopyPtr_DerivedPtr ::
  "'c \<Rightarrow> ('c, 'v) pworld \<Rightarrow> addr \<Rightarrow> addr option \<Rightarrow> ('c, 'v) pworld" where
  "DeepCopyPtr_DerivedPtr DerivedType w this p = put_var w this (from_ptr DerivedType p)"

text \<open>
  The copy initialisers
  \<^verbatim>\<open>ptr_(src.get() ? new X(*(src.get())) : 0), deleter_(src.get() ? new Deleter<X>() : 0)\<close>,
  in the order of the member declarations. \<^verbatim>\<open>DeepCopyPtr(const ThisType &src)\<close>
  has \<open>X\<close> the element type of both; the template
  \<^verbatim>\<open>DeepCopyPtr(const DeepCopyPtr<SomeType> &src)\<close> has \<open>X\<close> the element type of
  the source.
\<close>

definition copy_init ::
  "('c \<Rightarrow> 'v \<Rightarrow> 'v) \<Rightarrow> 'c \<Rightarrow> ('c, 'v) pworld \<Rightarrow> addr \<Rightarrow> addr \<Rightarrow> ('c, 'v) pworld option" where
  "copy_init cc X w this src =
     (case (case ptr (vars w src) of
              None \<Rightarrow> Some (put_var w this ((vars w this)\<lparr>ptr := None\<rparr>))
            | Some a \<Rightarrow>
                map_option (\<lambda>(b, w1). put_var w1 this ((vars w1 this)\<lparr>ptr := Some b\<rparr>))
                  (new_copy cc X w a)) of
        None \<Rightarrow> None
      | Some w2 \<Rightarrow>
          Some (put_var w2 this
            ((vars w2 this)\<lparr>deleter := (if ptr (vars w2 src) \<noteq> None then Some X else None)\<rparr>)))"

definition DeepCopyPtr_copy ::
  "('c \<Rightarrow> 'v \<Rightarrow> 'v) \<Rightarrow> 'c \<Rightarrow> ('c, 'v) pworld \<Rightarrow> addr \<Rightarrow> addr \<Rightarrow> ('c, 'v) pworld option" where
  "DeepCopyPtr_copy cc element_type w this src = copy_init cc element_type w this src"

definition DeepCopyPtr_copy_Some ::
  "('c \<Rightarrow> 'v \<Rightarrow> 'v) \<Rightarrow> 'c \<Rightarrow> ('c, 'v) pworld \<Rightarrow> addr \<Rightarrow> addr \<Rightarrow> ('c, 'v) pworld option" where
  "DeepCopyPtr_copy_Some cc SomeType w this src = copy_init cc SomeType w this src"

text \<open>\<^verbatim>\<open>DeepCopyPtr(const element_type *src)\<close>\<close>

definition DeepCopyPtr_const_ptr ::
  "('c \<Rightarrow> 'v \<Rightarrow> 'v) \<Rightarrow> 'c \<Rightarrow> ('c, 'v) pworld \<Rightarrow> addr \<Rightarrow> addr option \<Rightarrow> ('c, 'v) pworld option" where
  "DeepCopyPtr_const_ptr cc element_type w this src =
     (case src of
        None \<Rightarrow> Some (put_var w this \<lparr>ptr = None, deleter = None\<rparr>)
      | Some a \<Rightarrow>
          map_option (\<lambda>(b, w1). put_var w1 this \<lparr>ptr = Some b, deleter = Some element_type\<rparr>)
            (new_copy cc element_type w a))"

text \<open>\<^verbatim>\<open>~DeepCopyPtr() { doDelete(); }\<close>\<close>

definition DeepCopyPtr_dtor :: "('c, 'v) pworld \<Rightarrow> addr \<Rightarrow> ('c, 'v) pworld option" where
  "DeepCopyPtr_dtor w this = doDelete w this"

subsection \<open>Observers, swap and reset\<close>

definition get :: "('c, 'v) pworld \<Rightarrow> addr \<Rightarrow> addr option" where
  "get w this = ptr (vars w this)"

text \<open>\<^verbatim>\<open>operator bool() const { return get() != 0; }\<close>\<close>

definition DeepCopyPtr_bool :: "('c, 'v) pworld \<Rightarrow> addr \<Rightarrow> bool" where
  "DeepCopyPtr_bool w this = (get w this \<noteq> None)"

text \<open>
  \<^verbatim>\<open>operator*() const\<close>, after \<^verbatim>\<open>assert(ptr_)\<close>: the object the pointer refers
  to; \<open>None\<close> for a failed assertion or a dangling pointer.
\<close>

definition pointee :: "('c, 'v) pworld \<Rightarrow> addr \<Rightarrow> ('c, 'v) obj option" where
  "pointee w this =
     (case ptr (vars w this) of None \<Rightarrow> None | Some a \<Rightarrow> map_of (heap w) a)"

text \<open>\<^verbatim>\<open>operator==(const ThisType &rhs) const\<close>\<close>

definition opEq :: "('c, 'v) pworld \<Rightarrow> addr \<Rightarrow> addr \<Rightarrow> bool" where
  "opEq w this rhs = (ptr (vars w this) = ptr (vars w rhs))"

text \<open>\<^verbatim>\<open>swap(ThisType &other)\<close>: two \<^verbatim>\<open>std::swap\<close> calls.\<close>

definition swap :: "('c, 'v) pworld \<Rightarrow> addr \<Rightarrow> addr \<Rightarrow> ('c, 'v) pworld" where
  "swap w this other =
     (let w1 = put_var (put_var w this ((vars w this)\<lparr>ptr := ptr (vars w other)\<rparr>))
                 other ((vars w other)\<lparr>ptr := ptr (vars w this)\<rparr>)
      in put_var (put_var w1 this ((vars w1 this)\<lparr>deleter := deleter (vars w1 other)\<rparr>))
           other ((vars w1 other)\<lparr>deleter := deleter (vars w1 this)\<rparr>))"

text \<open>
  \<^verbatim>\<open>reset(element_type *p = 0)\<close>: \<^verbatim>\<open>ThisType(p).swap(*this)\<close> builds a temporary
  from \<open>p\<close>, exchanges the members and destroys the temporary, which by then
  holds the former members of \<^verbatim>\<open>*this\<close>.
\<close>

definition reset :: "'c \<Rightarrow> ('c, 'v) pworld \<Rightarrow> addr \<Rightarrow> addr option \<Rightarrow> ('c, 'v) pworld option" where
  "reset element_type w this p =
     (if p = ptr (vars w this) then Some w
      else map_option snd (doDelete_obj (vars w this) (put_var w this (from_ptr element_type p))))"

text \<open>The template \<^verbatim>\<open>reset(Other *p)\<close>, which has no test of \<open>p\<close>.\<close>

definition reset_Other :: "'c \<Rightarrow> ('c, 'v) pworld \<Rightarrow> addr \<Rightarrow> addr option \<Rightarrow> ('c, 'v) pworld option" where
  "reset_Other Other w this p =
     map_option snd (doDelete_obj (vars w this) (put_var w this (from_ptr Other p)))"

subsection \<open>Assignment operators\<close>

text \<open>\<^verbatim>\<open>operator=(const ThisType &rhs)\<close>\<close>

definition opAssign_This ::
  "('c \<Rightarrow> 'v \<Rightarrow> 'v) \<Rightarrow> 'c \<Rightarrow> ('c, 'v) pworld \<Rightarrow> addr \<Rightarrow> addr \<Rightarrow> ('c, 'v) pworld option" where
  "opAssign_This cc element_type w this rhs =
     (if this = rhs then Some w
      else
        (case doDelete w this of
           None \<Rightarrow> None
         | Some w1 \<Rightarrow>
             (case ptr (vars w1 rhs) of
                None \<Rightarrow> Some w1
              | Some a \<Rightarrow>
                  map_option
                    (\<lambda>(b, w2). put_var w2 this \<lparr>ptr = Some b, deleter = Some element_type\<rparr>)
                    (new_copy cc element_type w1 a))))"

text \<open>
  The template \<^verbatim>\<open>operator=(const DeepCopyPtr<DerivedType> &rhs)\<close>: the new object
  is made by \<^verbatim>\<open>new element_type(*rhs.get())\<close>, the deleter by
  \<^verbatim>\<open>new Deleter<DerivedType>()\<close>.
\<close>

definition opAssign_Derived ::
  "('c \<Rightarrow> 'v \<Rightarrow> 'v) \<Rightarrow> 'c \<Rightarrow> 'c \<Rightarrow> ('c, 'v) pworld \<Rightarrow> addr \<Rightarrow> addr \<Rightarrow> ('c, 'v) pworld option" where
  "opAssign_Derived cc element_type DerivedType w this rhs =
     (case doDelete w this of
        None \<Rightarrow> None
      | Some w1 \<Rightarrow>
          (case ptr (vars w1 rhs) of
             None \<Rightarrow> Some w1
           | Some a \<Rightarrow>
               map_option
                 (\<lambda>(b, w2). put_var w2 this \<lparr>ptr = Some b, deleter = Some DerivedType\<rparr>)
                 (new_copy cc element_type w1 a)))"

text \<open>
  \<^verbatim>\<open>operator=(const element_type *const rhs)\<close>, which also takes a pointer to a
  non-const \<^verbatim>\<open>element_type\<close> and the null pointer constant: the class has no
  assignment from a pointer to non-const.
\<close>

definition opAssign_ptr ::
  "('c \<Rightarrow> 'v \<Rightarrow> 'v) \<Rightarrow> 'c \<Rightarrow> ('c, 'v) pworld \<Rightarrow> addr \<Rightarrow> addr option \<Rightarrow> ('c, 'v) pworld option" where
  "opAssign_ptr cc element_type w this rhs =
     (if get w this = rhs then Some w
      else
        (case doDelete w this of
           None \<Rightarrow> None
         | Some w1 \<Rightarrow>
             (case rhs of
                None \<Rightarrow> Some (put_var w1 this \<lparr>ptr = None, deleter = Some element_type\<rparr>)
              | Some a \<Rightarrow>
                  map_option
                    (\<lambda>(b, w2). put_var w2 this \<lparr>ptr = Some b, deleter = Some element_type\<rparr>)
                    (new_copy cc element_type w1 a))))"

text \<open>The template \<^verbatim>\<open>operator=(const SomeType *const rhs)\<close>\<close>

definition opAssign_SomePtr ::
  "('c \<Rightarrow> 'v \<Rightarrow> 'v) \<Rightarrow> 'c \<Rightarrow> ('c, 'v) pworld \<Rightarrow> addr \<Rightarrow> addr option \<Rightarrow> ('c, 'v) pworld option" where
  "opAssign_SomePtr cc SomeType w this rhs =
     (case doDelete w this of
        None \<Rightarrow> None
      | Some w1 \<Rightarrow>
          (case rhs of
             None \<Rightarrow> Some (put_var w1 this \<lparr>ptr = None, deleter = Some SomeType\<rparr>)
           | Some a \<Rightarrow>
               map_option
                 (\<lambda>(b, w2). put_var w2 this \<lparr>ptr = Some b, deleter = Some SomeType\<rparr>)
                 (new_copy cc SomeType w1 a)))"

section \<open>The fixtures of the tests\<close>

text \<open>
  The classes of the \<^verbatim>\<open>DeepCopyPtr\<close> tests: \<^verbatim>\<open>struct C\<close> with the member \<^verbatim>\<open>int i_\<close>,
  and \<^verbatim>\<open>struct D : C\<close>, which adds no member. Both copy constructors copy
  \<^verbatim>\<open>i_\<close>, and \<^verbatim>\<open>C::operator==\<close> compares it.
\<close>

datatype fixture = C | D

fun base_of :: "fixture \<Rightarrow> fixture option" where
  "base_of C = None"
| "base_of D = Some C"

definition fixture_copy :: "fixture \<Rightarrow> int \<Rightarrow> int" where
  "fixture_copy X i = i"

definition no_var :: "fixture DeepCopyPtr" where
  "no_var = \<lparr>ptr = None, deleter = None\<rparr>"

text \<open>
  \<^verbatim>\<open>DeepCopyPtr<C> b = new D(42); DeepCopyPtr<C> b2(b);\<close> with the \<^verbatim>\<open>D\<close> object at
  address 1, \<^verbatim>\<open>b\<close> at 0 and \<^verbatim>\<open>b2\<close> at 1.
\<close>

definition heap_D42 :: "(fixture, int) pworld" where
  "heap_D42 = \<lparr>heap = [(1, \<lparr>dyn = D, val = 42\<rparr>)], vars = (\<lambda>a. no_var), deleted = []\<rparr>"

definition base_holds_derived :: "(fixture, int) pworld" where
  "base_holds_derived = DeepCopyPtr_DerivedPtr D heap_D42 0 (Some 1)"

definition base_copied :: "(fixture, int) pworld" where
  "base_copied = the (DeepCopyPtr_copy fixture_copy C base_holds_derived 1 0)"

text \<open>
  \<^verbatim>\<open>DeepCopyPtr<C> lhs(new C(1));\<close> with the object at address 1 and \<^verbatim>\<open>lhs\<close>
  at 0, as in the tests that assign a null pointer.
\<close>

definition heap_C1 :: "(fixture, int) pworld" where
  "heap_C1 = \<lparr>heap = [(1, \<lparr>dyn = C, val = 1\<rparr>)], vars = (\<lambda>a. no_var), deleted = []\<rparr>"

definition lhs_C1 :: "(fixture, int) pworld" where
  "lhs_C1 = DeepCopyPtr_ptr C heap_C1 0 (Some 1)"

text \<open>
  \<^verbatim>\<open>DeepCopyPtr<C> c; DeepCopyPtr<D> d(new D(1));\<close> with the object at address
  1, \<^verbatim>\<open>c\<close> at 0 and \<^verbatim>\<open>d\<close> at 1, as in \<^verbatim>\<open>testOpequal_sp_toSuper\<close>.
\<close>

definition heap_D1 :: "(fixture, int) pworld" where
  "heap_D1 = \<lparr>heap = [(1, \<lparr>dyn = D, val = 1\<rparr>)], vars = (\<lambda>a. no_var), deleted = []\<rparr>"

definition c_and_d :: "(fixture, int) pworld" where
  "c_and_d = DeepCopyPtr_ptr D (DeepCopyPtr_default heap_D1 0) 1 (Some 1)"

text \<open>
  \<^verbatim>\<open>DeepCopyPtr<D> dsp; D *dlp = new D(1);\<close> with the object at address 1 and
  \<^verbatim>\<open>dsp\<close> at 0, as in \<^verbatim>\<open>testOpequal_lp_toSame\<close>.
\<close>

definition dsp_and_dlp :: "(fixture, int) pworld" where
  "dsp_and_dlp = DeepCopyPtr_default heap_D1 0"

text \<open>
  Two owners: \<^verbatim>\<open>DeepCopyPtr<C> p(new C(7)), q(new C(1));\<close> with the objects at the
  addresses 2 and 1, \<^verbatim>\<open>p\<close> at 0 and \<^verbatim>\<open>q\<close> at 1.
\<close>

definition heap_two :: "(fixture, int) pworld" where
  "heap_two =
     \<lparr>heap = [(2, \<lparr>dyn = C, val = 7\<rparr>), (1, \<lparr>dyn = C, val = 1\<rparr>)], vars = (\<lambda>a. no_var),
      deleted = []\<rparr>"

definition two_owners :: "(fixture, int) pworld" where
  "two_owners = DeepCopyPtr_ptr C (DeepCopyPtr_ptr C heap_two 0 (Some 2)) 1 (Some 1)"

text \<open>
  The \<^verbatim>\<open>Result<int, std::string>\<close> of the scenarios. \<^verbatim>\<open>int\<close> is a POD type
  and a moved-from \<^verbatim>\<open>int\<close> keeps its value; a moved-from string is taken to be
  empty.
\<close>

definition int_string :: "(int, string) payload_types" where
  "int_string =
     \<lparr>S_default = 0, F_default = [], S_moved_from = (\<lambda>i. i), F_moved_from = (\<lambda>s. []),
      S_is_pod = True, F_is_pod = False\<rparr>"

definition junk :: "(int, string) rworld" where
  "junk = \<lparr>mem = (\<lambda>a. \<lparr>storage = Raw, state = succeeded\<rparr>), trace = []\<rparr>"

text \<open>\<^verbatim>\<open>Result<int, std::string> u;\<close> at address 0, in memory that held other data.\<close>

definition with_u :: "(int, string) rworld" where
  "with_u = Result_default junk 0"

text \<open>\<^verbatim>\<open>Result<int, std::string> r(5);\<close> at address 0.\<close>

definition with_r5 :: "(int, string) rworld" where
  "with_r5 = the (Result_S junk 0 (ExtS 5))"

text \<open>A \<^verbatim>\<open>Result\<close> that holds the failure \<^verbatim>\<open>"boom"\<close>.\<close>

definition failed_boom :: "(int, string) Result" where
  "failed_boom = \<lparr>storage = AsF ''boom'', state = failed\<rparr>"

text \<open>\<^verbatim>\<open>r\<close> as above at address 0 and a default-constructed \<^verbatim>\<open>Result\<close> at address 1.\<close>

definition r5_and_u :: "(int, string) rworld" where
  "r5_and_u = Result_default with_r5 1"

text \<open>\<^verbatim>\<open>r\<close> as above at address 0 and a \<^verbatim>\<open>Result\<close> made from \<^verbatim>\<open>"boom"\<close> at address 1.\<close>

definition r5_and_boom :: "(int, string) rworld" where
  "r5_and_boom = the (Result_F with_r5 1 (ExtF ''boom''))"

section \<open>Vocabulary of the statements\<close>

text \<open>
  The call \<^verbatim>\<open>destroy()\<close> makes on the payload of a \<^verbatim>\<open>Result\<close> in a given state:
  none without a payload, one otherwise.
\<close>

abbreviation destroyed :: "('s, 'f) payload_types \<Rightarrow> addr \<Rightarrow> State \<Rightarrow> event list" where
  "destroyed T this st \<equiv>
     (case st of
        uninit \<Rightarrow> []
      | succeeded \<Rightarrow> [(if S_is_pod T then PodRelease else Dtor, this, succeeded)]
      | failed \<Rightarrow> [(if F_is_pod T then PodRelease else Dtor, this, failed)])"

text \<open>
  The deletion \<^verbatim>\<open>doDelete()\<close> makes for a \<^verbatim>\<open>DeepCopyPtr\<close>: none for a null pointer,
  one of the pointee through the deleter otherwise.
\<close>

abbreviation destroyed_pointee :: "('c, 'v) pworld \<Rightarrow> addr \<Rightarrow> 'c deletion list" where
  "destroyed_pointee w this \<equiv>
     (case ptr (vars w this) of
        None \<Rightarrow> []
      | Some a \<Rightarrow>
          [\<lparr>target = a, as_type = the (deleter (vars w this)),
            dyn_type = dyn (the (map_of (heap w) a))\<rparr>])"

text \<open>The heap once \<^verbatim>\<open>doDelete()\<close> has deleted the pointee, if there is one.\<close>

abbreviation heap_without_pointee :: "('c, 'v) pworld \<Rightarrow> addr \<Rightarrow> (addr \<times> ('c, 'v) obj) list" where
  "heap_without_pointee w this \<equiv>
     (case ptr (vars w this) of None \<Rightarrow> heap w | Some a \<Rightarrow> AList.delete a (heap w))"

section \<open>Properties of Result\<close>

lemmas rworld_simps = put_storage_def put_state_def record_call_def

text \<open>
  C7. Dereferencing (\<^verbatim>\<open>operator*\<close>, \<^verbatim>\<open>operator->\<close>) throws \<^verbatim>\<open>CantDereference\<close>
  exactly when the state is not \<open>succeeded\<close>, and throws nothing else;
  \<^verbatim>\<open>fail()\<close> returns the failure payload when the state is \<open>failed\<close> and throws
  \<^verbatim>\<open>NotHaveFailedObject\<close> exactly when the state is \<open>succeeded\<close> or \<open>uninit\<close>;
  both exceptions are caught by a handler for \<^verbatim>\<open>std::runtime_error\<close>.
\<close>

theorem Result_access_errors:
  "(opStar r = Inl CantDereference \<longleftrightarrow> state r \<noteq> succeeded) \<and>
   opStar r \<noteq> Inl NotHaveFailedObject \<and>
   (opArrow w this = Inl CantDereference \<longleftrightarrow> state (mem w this) \<noteq> succeeded) \<and>
   (state (mem w this) = succeeded \<longrightarrow> opArrow w this = Inr (StorageOf this)) \<and>
   (state r = failed \<and> storage r = AsF f \<longrightarrow> fail r = Inr f) \<and>
   (fail r = Inl NotHaveFailedObject \<longleftrightarrow> state r = succeeded \<or> state r = uninit) \<and>
   caught_as_runtime_error CantDereference \<and>
   caught_as_runtime_error NotHaveFailedObject"
  by (cases "state r"; cases "storage r")
     (simp_all add: opStar_def opArrow_def opBool_def fail_def caught_as_runtime_error_def)

theorem Result_access_errors_witness:
  "opStar failed_boom = Inl CantDereference \<and>
   opArrow with_r5 0 = Inr (StorageOf 0) \<and>
   fail failed_boom = Inr ''boom'' \<and>
   fail (mem with_r5 0) = Inl NotHaveFailedObject \<and>
   fail (mem with_u 0) = Inl NotHaveFailedObject"
proof -
  have r5: "state (mem with_r5 0) = succeeded"
    by (simp add: with_r5_def junk_def Result_S_def allocate_def read_S_def rworld_simps)
  have u: "state (mem with_u 0) = uninit"
    by (simp add: with_u_def junk_def Result_default_def rworld_simps)
  have boom: "state failed_boom = failed \<and> storage failed_boom = AsF ''boom''"
    by (simp add: failed_boom_def)
  show ?thesis
    using Result_access_errors [of failed_boom with_r5 0 "''boom''"]
      Result_access_errors [of "mem with_r5 0" with_r5 0 "''boom''"]
      Result_access_errors [of "mem with_u 0" with_r5 0 "''boom''"] r5 u boom
    by simp
qed

text \<open>
  C8. Constructing a \<^verbatim>\<open>Result\<close> from a success value \<open>s\<close>, by copy or by move,
  gives an object that converts to \<^verbatim>\<open>true\<close> and whose dereference is \<open>s\<close>.
\<close>

theorem Result_from_S_roundtrip:
  assumes "read_S w src = Some s"
  shows "(\<exists>w'. Result_S w this src = Some w' \<and> opBool (mem w' this) \<and> opStar (mem w' this) = Inr s) \<and>
         (src \<noteq> StorageOf this \<longrightarrow>
           (\<exists>w'. Result_S_move T w this src = Some w' \<and> opBool (mem w' this)
              \<and> opStar (mem w' this) = Inr s))"
  using assms
  by (cases src)
     (simp_all add: Result_S_def Result_S_move_def allocate_def allocate_move_def moved_out_S_def
        opBool_def opStar_def rworld_simps)

theorem Result_from_S_roundtrip_witness:
  "read_S junk (ExtS 5) = Some 5 \<and>
   (\<exists>w'. Result_S junk 0 (ExtS 5) = Some w' \<and> opBool (mem w' 0) \<and> opStar (mem w' 0) = Inr 5) \<and>
   (\<exists>w'. Result_S_move int_string junk 0 (ExtS 5) = Some w' \<and> opBool (mem w' 0)
      \<and> opStar (mem w' 0) = Inr 5)"
proof -
  have h: "read_S junk (ExtS 5) = Some 5"
    by (simp add: read_S_def)
  show ?thesis
    using h Result_from_S_roundtrip [OF h, of 0 int_string] by simp
qed

subsection \<open>Copy and move construction\<close>

lemmas alloc_defs = allocate_def allocate_move_def read_S_def read_F_def
  moved_out_S_def moved_out_F_def rworld_simps

lemma Result_copy_succeeded:
  assumes "state (mem w src) = succeeded" "storage (mem w src) = AsS s"
  shows "\<exists>w'. Result_copy w this src = Some w' \<and>
           state (mem w' this) = succeeded \<and> storage (mem w' this) = AsS s \<and>
           trace w' = trace w @ [(CopyCtor, this, succeeded)]"
  using assms by (simp add: Result_copy_def alloc_defs)

lemma Result_copy_failed:
  assumes "state (mem w src) = failed" "storage (mem w src) = AsF f"
  shows "\<exists>w'. Result_copy w this src = Some w' \<and>
           state (mem w' this) = failed \<and> storage (mem w' this) = AsF f \<and>
           trace w' = trace w @ [(CopyCtor, this, failed)]"
  using assms by (simp add: Result_copy_def alloc_defs)

lemma Result_copy_uninit:
  assumes "state (mem w src) = uninit"
  shows "Result_copy w this src = Some w"
  using assms by (simp add: Result_copy_def)

lemma Result_move_uninit:
  assumes "state (mem w src) = uninit" "this \<noteq> src"
  shows "\<exists>w'. Result_move T w this src = Some w' \<and> state (mem w' this) = uninit \<and>
           state (mem w' src) = uninit \<and> trace w' = trace w"
  using assms by (simp add: Result_move_def rworld_simps)

lemma Result_move_succeeded:
  assumes "state (mem w src) = succeeded" "storage (mem w src) = AsS s" "this \<noteq> src"
  shows "\<exists>w'. Result_move T w this src = Some w' \<and>
           state (mem w' this) = succeeded \<and> storage (mem w' this) = AsS s \<and>
           state (mem w' src) = succeeded \<and> storage (mem w' src) = AsS (S_moved_from T s) \<and>
           trace w' = trace w @ [(MoveCtor, this, succeeded)]"
  using assms by (simp add: Result_move_def alloc_defs)

lemma Result_move_failed:
  assumes "state (mem w src) = failed" "storage (mem w src) = AsF f" "this \<noteq> src"
  shows "\<exists>w'. Result_move T w this src = Some w' \<and>
           state (mem w' this) = failed \<and> storage (mem w' this) = AsF f \<and>
           state (mem w' src) = failed \<and> storage (mem w' src) = AsF (F_moved_from T f) \<and>
           trace w' = trace w @ [(MoveCtor, this, failed)]"
  using assms by (simp add: Result_move_def alloc_defs)

text \<open>
  C4 on the code. \<^verbatim>\<open>Result(const Result &)\<close> has no initialiser for \<^verbatim>\<open>state_\<close> and
  returns at once for a source in the state \<open>uninit\<close>: the new object keeps
  whatever its memory held. Here the memory at address 1 decodes to the state
  \<open>succeeded\<close>, and the copy of the default-constructed \<^verbatim>\<open>u\<close> converts to
  \<^verbatim>\<open>true\<close>, while the move constructor, which has the initialiser, gives
  \<open>uninit\<close>.
\<close>

theorem Result_copy_of_uninit_keeps_old_memory:
  "state (mem with_u 0) = uninit \<and>
   Result_copy with_u 1 0 = Some with_u \<and>
   state (mem (the (Result_copy with_u 1 0)) 1) = succeeded \<and>
   opBool (mem (the (Result_copy with_u 1 0)) 1) \<and>
   opStar (mem (the (Result_copy with_u 1 0)) 1) = Inl UndefinedBehaviour \<and>
   state (mem (the (Result_move int_string with_u 1 0)) 1) = uninit"
  by (simp add: with_u_def junk_def Result_default_def Result_copy_def Result_move_def opBool_def
        opStar_def rworld_simps)

subsection \<open>Assignment\<close>

lemmas subst_defs = substitute_def substitute_move_def destroy_def Destoroyer_def
  allocate_default_def copy_assign_S_def copy_assign_F_def move_assign_S_def move_assign_F_def
  read_S_def read_F_def moved_out_S_def moved_out_F_def rworld_simps

lemma move_assign_Result_uninit:
  assumes "state (mem w rhs) = uninit"
  shows "\<exists>w'. opAssign_Result_move T w this rhs = Some w' \<and> state (mem w' this) = uninit \<and>
           state (mem w' rhs) = uninit"
  using assms
  by (cases "state (mem w this)")
     (auto simp add: opAssign_Result_move_def subst_defs split: buffer.splits)

lemma move_assign_Result_succeeded:
  assumes "state (mem w rhs) = succeeded" "storage (mem w rhs) = AsS s" "this \<noteq> rhs"
  shows "\<exists>w'. opAssign_Result_move T w this rhs = Some w' \<and>
           state (mem w' this) = succeeded \<and> storage (mem w' this) = AsS s \<and>
           state (mem w' rhs) = succeeded \<and> storage (mem w' rhs) = AsS (S_moved_from T s)"
  using assms
  by (cases "state (mem w this)")
     (auto simp add: opAssign_Result_move_def subst_defs split: buffer.splits)

lemma move_assign_Result_failed:
  assumes "state (mem w rhs) = failed" "storage (mem w rhs) = AsF f" "this \<noteq> rhs"
  shows "\<exists>w'. opAssign_Result_move T w this rhs = Some w' \<and>
           state (mem w' this) = failed \<and> storage (mem w' this) = AsF f \<and>
           state (mem w' rhs) = failed \<and> storage (mem w' rhs) = AsF (F_moved_from T f)"
  using assms
  by (cases "state (mem w this)")
     (auto simp add: opAssign_Result_move_def subst_defs split: buffer.splits)

lemma move_assign_Result_self:
  "\<exists>w'. opAssign_Result_move T w this this = Some w' \<and> state (mem w' this) = state (mem w this)"
  by (cases "state (mem w this)")
     (auto simp add: opAssign_Result_move_def subst_defs split: buffer.splits)

lemma moved_out_keeps_state:
  "state (mem (moved_out_S T w p s) a) = state (mem w a) \<and>
   state (mem (moved_out_F T w p f) a) = state (mem w a)"
  by (cases p) (simp_all add: moved_out_S_def moved_out_F_def rworld_simps)

text \<open>
  C5, as the code has it. A move from one \<^verbatim>\<open>Result\<close> to another, by the move
  constructor or by move assignment, moves the payload only: the moved-from
  \<^verbatim>\<open>Result\<close> keeps its state, and its buffer holds the moved-from payload. It is
  in the state \<open>uninit\<close> afterwards only if it was before. Moving a payload out
  of a buffer never changes a state.
\<close>

theorem Result_move_keeps_source_state:
  "(this \<noteq> src \<and> state (mem w src) = uninit \<longrightarrow>
      (\<exists>w'. Result_move T w this src = Some w' \<and> state (mem w' this) = uninit \<and>
         state (mem w' src) = uninit)) \<and>
   (this \<noteq> src \<and> state (mem w src) = succeeded \<and> storage (mem w src) = AsS s \<longrightarrow>
      (\<exists>w'. Result_move T w this src = Some w' \<and>
         state (mem w' this) = succeeded \<and> storage (mem w' this) = AsS s \<and>
         state (mem w' src) = succeeded \<and> storage (mem w' src) = AsS (S_moved_from T s))) \<and>
   (this \<noteq> src \<and> state (mem w src) = failed \<and> storage (mem w src) = AsF f \<longrightarrow>
      (\<exists>w'. Result_move T w this src = Some w' \<and>
         state (mem w' this) = failed \<and> storage (mem w' this) = AsF f \<and>
         state (mem w' src) = failed \<and> storage (mem w' src) = AsF (F_moved_from T f))) \<and>
   (state (mem w src) = uninit \<longrightarrow>
      (\<exists>w'. opAssign_Result_move T w this src = Some w' \<and> state (mem w' this) = uninit \<and>
         state (mem w' src) = uninit)) \<and>
   (this \<noteq> src \<and> state (mem w src) = succeeded \<and> storage (mem w src) = AsS s \<longrightarrow>
      (\<exists>w'. opAssign_Result_move T w this src = Some w' \<and>
         state (mem w' this) = succeeded \<and> storage (mem w' this) = AsS s \<and>
         state (mem w' src) = succeeded \<and> storage (mem w' src) = AsS (S_moved_from T s))) \<and>
   (this \<noteq> src \<and> state (mem w src) = failed \<and> storage (mem w src) = AsF f \<longrightarrow>
      (\<exists>w'. opAssign_Result_move T w this src = Some w' \<and>
         state (mem w' this) = failed \<and> storage (mem w' this) = AsF f \<and>
         state (mem w' src) = failed \<and> storage (mem w' src) = AsF (F_moved_from T f))) \<and>
   (\<exists>w'. opAssign_Result_move T w this this = Some w' \<and>
      state (mem w' this) = state (mem w this)) \<and>
   state (mem (moved_out_S T w p s) a) = state (mem w a) \<and>
   state (mem (moved_out_F T w p f) a) = state (mem w a)"
  using Result_move_uninit [of w src this T] Result_move_succeeded [of w src s this T]
    Result_move_failed [of w src f this T] move_assign_Result_uninit [of w src T this]
    move_assign_Result_succeeded [of w src s this T] move_assign_Result_failed [of w src f this T]
    move_assign_Result_self [of T w this] moved_out_keeps_state [of T w p s a f]
  by blast

theorem Result_move_keeps_source_state_witness:
  "(1::nat) \<noteq> 0 \<and> state (mem with_r5 0) = succeeded \<and> storage (mem with_r5 0) = AsS 5 \<and>
   (\<exists>w'. Result_move int_string with_r5 1 0 = Some w' \<and>
      state (mem w' 1) = succeeded \<and> storage (mem w' 1) = AsS 5 \<and>
      state (mem w' 0) = succeeded \<and> storage (mem w' 0) = AsS (S_moved_from int_string 5)) \<and>
   (\<exists>w'. opAssign_Result_move int_string with_r5 1 0 = Some w' \<and>
      state (mem w' 1) = succeeded \<and> storage (mem w' 1) = AsS 5 \<and>
      state (mem w' 0) = succeeded \<and> storage (mem w' 0) = AsS (S_moved_from int_string 5))"
proof -
  have h: "(1::nat) \<noteq> 0 \<and> state (mem with_r5 0) = succeeded \<and> storage (mem with_r5 0) = AsS 5"
    by (simp add: with_r5_def junk_def Result_S_def alloc_defs)
  show ?thesis
    using h Result_move_keeps_source_state [of 1 0 with_r5 int_string 5]
    by blast
qed

text \<open>
  C5 as stated fails: after \<^verbatim>\<open>R dst(std::move(r))\<close>, and after
  \<^verbatim>\<open>u = std::move(r)\<close>, the moved-from \<^verbatim>\<open>r\<close> is in the state \<open>succeeded\<close>, not
  \<open>uninit\<close>.
\<close>

theorem Result_move_counterexample:
  "state (mem with_r5 0) = succeeded \<and>
   Result_move int_string with_r5 1 0 \<noteq> None \<and>
   state (mem (the (Result_move int_string with_r5 1 0)) 0) = succeeded \<and>
   state (mem (the (Result_move int_string with_r5 1 0)) 0) \<noteq> uninit \<and>
   opAssign_Result_move int_string r5_and_u 1 0 \<noteq> None \<and>
   state (mem (the (opAssign_Result_move int_string r5_and_u 1 0)) 0) \<noteq> uninit"
  by (simp add: r5_and_u_def with_r5_def junk_def int_string_def Result_S_def Result_default_def
        Result_move_def opAssign_Result_move_def subst_defs allocate_def allocate_move_def)

lemma assign_S:
  assumes "read_S w p = Some s"
  shows "\<exists>w'. opAssign_S T w this p = Some w' \<and>
     trace w' = trace w @ destroyed T this (state (mem w this))
                  @ [(DefaultCtor, this, succeeded), (CopyAssign, this, succeeded)] \<and>
     state (mem w' this) = succeeded \<and>
     storage (mem w' this) = AsS (if p = StorageOf this then S_default T else s)"
  using assms
  by (cases "state (mem w this)"; cases p)
     (auto simp add: opAssign_S_def subst_defs split: buffer.splits)

lemma assign_F:
  assumes "read_F w p = Some f"
  shows "\<exists>w'. opAssign_F T w this p = Some w' \<and>
     trace w' = trace w @ destroyed T this (state (mem w this))
                  @ [(DefaultCtor, this, failed), (CopyAssign, this, failed)] \<and>
     state (mem w' this) = failed \<and>
     storage (mem w' this) = AsF (if p = StorageOf this then F_default T else f)"
  using assms
  by (cases "state (mem w this)"; cases p)
     (auto simp add: opAssign_F_def subst_defs split: buffer.splits)

lemma assign_S_move:
  assumes "read_S w p = Some s"
  shows "\<exists>w'. opAssign_S_move T w this p = Some w' \<and>
     trace w' = trace w @ destroyed T this (state (mem w this))
                  @ [(DefaultCtor, this, succeeded), (MoveAssign, this, succeeded)] \<and>
     state (mem w' this) = succeeded \<and>
     storage (mem w' this) =
       AsS (if p = StorageOf this then S_moved_from T (S_default T) else s) \<and>
     (\<forall>a. p = StorageOf a \<and> a \<noteq> this \<longrightarrow>
        storage (mem w' a) = AsS (S_moved_from T s) \<and> state (mem w' a) = state (mem w a))"
  using assms
  by (cases "state (mem w this)"; cases p)
     (auto simp add: opAssign_S_move_def subst_defs split: buffer.splits)

lemma assign_F_move:
  assumes "read_F w p = Some f"
  shows "\<exists>w'. opAssign_F_move T w this p = Some w' \<and>
     trace w' = trace w @ destroyed T this (state (mem w this))
                  @ [(DefaultCtor, this, failed), (MoveAssign, this, failed)] \<and>
     state (mem w' this) = failed \<and>
     storage (mem w' this) =
       AsF (if p = StorageOf this then F_moved_from T (F_default T) else f) \<and>
     (\<forall>a. p = StorageOf a \<and> a \<noteq> this \<longrightarrow>
        storage (mem w' a) = AsF (F_moved_from T f) \<and> state (mem w' a) = state (mem w a))"
  using assms
  by (cases "state (mem w this)"; cases p)
     (auto simp add: opAssign_F_move_def subst_defs split: buffer.splits)

lemma assign_Result_uninit:
  assumes "state (mem w rhs) = uninit"
  shows "\<exists>w'. opAssign_Result T w this rhs = Some w' \<and>
     opAssign_Result_move T w this rhs = Some w' \<and>
     trace w' = trace w @ destroyed T this (state (mem w this)) \<and>
     state (mem w' this) = uninit"
  using assms
  by (cases "state (mem w this)")
     (auto simp add: opAssign_Result_def opAssign_Result_move_def subst_defs split: buffer.splits)

lemma assign_Result_succeeded:
  assumes "state (mem w rhs) = succeeded" "storage (mem w rhs) = AsS s" "rhs \<noteq> this"
  shows "\<exists>w'. opAssign_Result T w this rhs = Some w' \<and>
     trace w' = trace w @ destroyed T this (state (mem w this))
                  @ [(DefaultCtor, this, succeeded), (CopyAssign, this, succeeded)] \<and>
     state (mem w' this) = succeeded \<and> storage (mem w' this) = AsS s \<and>
     mem w' rhs = mem w rhs"
  using assms
  by (cases "state (mem w this)")
     (auto simp add: opAssign_Result_def subst_defs split: buffer.splits)

lemma assign_Result_failed:
  assumes "state (mem w rhs) = failed" "storage (mem w rhs) = AsF f" "rhs \<noteq> this"
  shows "\<exists>w'. opAssign_Result T w this rhs = Some w' \<and>
     trace w' = trace w @ destroyed T this (state (mem w this))
                  @ [(DefaultCtor, this, failed), (CopyAssign, this, failed)] \<and>
     state (mem w' this) = failed \<and> storage (mem w' this) = AsF f \<and>
     mem w' rhs = mem w rhs"
  using assms
  by (cases "state (mem w this)")
     (auto simp add: opAssign_Result_def subst_defs split: buffer.splits)

lemma assign_Result_move_succeeded:
  assumes "state (mem w rhs) = succeeded" "storage (mem w rhs) = AsS s" "rhs \<noteq> this"
  shows "\<exists>w'. opAssign_Result_move T w this rhs = Some w' \<and>
     trace w' = trace w @ destroyed T this (state (mem w this))
                  @ [(DefaultCtor, this, succeeded), (MoveAssign, this, succeeded)] \<and>
     state (mem w' this) = succeeded \<and> storage (mem w' this) = AsS s \<and>
     state (mem w' rhs) = succeeded \<and> storage (mem w' rhs) = AsS (S_moved_from T s)"
  using assms
  by (cases "state (mem w this)")
     (auto simp add: opAssign_Result_move_def subst_defs split: buffer.splits)

lemma assign_Result_move_failed:
  assumes "state (mem w rhs) = failed" "storage (mem w rhs) = AsF f" "rhs \<noteq> this"
  shows "\<exists>w'. opAssign_Result_move T w this rhs = Some w' \<and>
     trace w' = trace w @ destroyed T this (state (mem w this))
                  @ [(DefaultCtor, this, failed), (MoveAssign, this, failed)] \<and>
     state (mem w' this) = failed \<and> storage (mem w' this) = AsF f \<and>
     state (mem w' rhs) = failed \<and> storage (mem w' rhs) = AsF (F_moved_from T f)"
  using assms
  by (cases "state (mem w this)")
     (auto simp add: opAssign_Result_move_def subst_defs split: buffer.splits)

lemma assign_Result_self:
  "\<exists>w'. opAssign_Result T w this this = Some w' \<and>
     trace w' = trace w @ destroyed T this (state (mem w this))
        @ (if state (mem w this) = uninit then []
           else [(DefaultCtor, this, state (mem w this)), (CopyAssign, this, state (mem w this))]) \<and>
     state (mem w' this) = state (mem w this) \<and>
     storage (mem w' this) =
       (case state (mem w this) of
          uninit \<Rightarrow> storage (mem w this)
        | succeeded \<Rightarrow> AsS (S_default T)
        | failed \<Rightarrow> AsF (F_default T))"
  by (cases "state (mem w this)")
     (auto simp add: opAssign_Result_def subst_defs split: buffer.splits)

lemma assign_Result_move_self:
  "\<exists>w'. opAssign_Result_move T w this this = Some w' \<and>
     trace w' = trace w @ destroyed T this (state (mem w this))
        @ (if state (mem w this) = uninit then []
           else [(DefaultCtor, this, state (mem w this)), (MoveAssign, this, state (mem w this))]) \<and>
     state (mem w' this) = state (mem w this) \<and>
     storage (mem w' this) =
       (case state (mem w this) of
          uninit \<Rightarrow> storage (mem w this)
        | succeeded \<Rightarrow> AsS (S_moved_from T (S_default T))
        | failed \<Rightarrow> AsF (F_moved_from T (F_default T)))"
  by (cases "state (mem w this)")
     (auto simp add: opAssign_Result_move_def subst_defs split: buffer.splits)

lemma failed_over_succeeded:
  assumes "state (mem w this) = succeeded" "state (mem w rhs) = failed" "storage (mem w rhs) = AsF f"
  shows "(\<exists>w'. opAssign_Result T w this rhs = Some w' \<and>
     \<not> opBool (mem w' this) \<and> fail (mem w' this) = Inr f \<and>
     trace w' = trace w @ [(if S_is_pod T then PodRelease else Dtor, this, succeeded),
                            (DefaultCtor, this, failed), (CopyAssign, this, failed)]) \<and>
    (\<exists>w'. opAssign_Result_move T w this rhs = Some w' \<and>
     \<not> opBool (mem w' this) \<and> fail (mem w' this) = Inr f \<and>
     trace w' = trace w @ [(if S_is_pod T then PodRelease else Dtor, this, succeeded),
                            (DefaultCtor, this, failed), (MoveAssign, this, failed)])"
proof -
  from assms have ne: "rhs \<noteq> this" by auto
  from assign_Result_failed [OF assms(2,3) ne, of T] assign_Result_move_failed [OF assms(2,3) ne, of T]
    assms(1)
  show ?thesis
    by (auto simp add: opBool_def fail_def)
qed


text \<open>
  C6. Every assignment into a \<^verbatim>\<open>Result\<close>, by copy or by move, from a success
  value, from a failure value or from another \<^verbatim>\<open>Result\<close>, first makes the one
  destroying call on the current payload if there is one, then
  placement-constructs the new payload (by the default constructor, followed
  by the payload's copy or move assignment) and sets the state to that of the
  source; the trace gives the calls in this order and no other call. The new
  payload is the source's value, or, when the source is the payload that the
  assignment has just destroyed (\<^verbatim>\<open>r = *r\<close>, \<^verbatim>\<open>r = r\<close>), what the assignment
  makes of the default-constructed one. Assigning a failed \<^verbatim>\<open>Result\<close> over a
  succeeded one leaves the target converting to \<^verbatim>\<open>false\<close>, with \<^verbatim>\<open>fail()\<close>
  returning the failure and the former payload destroyed by exactly one call
  that precedes the construction. Self-assignment destroys the payload once.
\<close>

theorem Result_assignment_destroys_then_constructs:
  "(read_S w p = Some s \<longrightarrow>
      (\<exists>w'. opAssign_S T w this p = Some w' \<and>
         trace w' = trace w @ destroyed T this (state (mem w this))
                      @ [(DefaultCtor, this, succeeded), (CopyAssign, this, succeeded)] \<and>
         state (mem w' this) = succeeded \<and>
         storage (mem w' this) = AsS (if p = StorageOf this then S_default T else s)) \<and>
      (\<exists>w'. opAssign_S_move T w this p = Some w' \<and>
         trace w' = trace w @ destroyed T this (state (mem w this))
                      @ [(DefaultCtor, this, succeeded), (MoveAssign, this, succeeded)] \<and>
         state (mem w' this) = succeeded \<and>
         storage (mem w' this) =
           AsS (if p = StorageOf this then S_moved_from T (S_default T) else s))) \<and>
   (read_F w q = Some f \<longrightarrow>
      (\<exists>w'. opAssign_F T w this q = Some w' \<and>
         trace w' = trace w @ destroyed T this (state (mem w this))
                      @ [(DefaultCtor, this, failed), (CopyAssign, this, failed)] \<and>
         state (mem w' this) = failed \<and>
         storage (mem w' this) = AsF (if q = StorageOf this then F_default T else f)) \<and>
      (\<exists>w'. opAssign_F_move T w this q = Some w' \<and>
         trace w' = trace w @ destroyed T this (state (mem w this))
                      @ [(DefaultCtor, this, failed), (MoveAssign, this, failed)] \<and>
         state (mem w' this) = failed \<and>
         storage (mem w' this) =
           AsF (if q = StorageOf this then F_moved_from T (F_default T) else f))) \<and>
   (state (mem w rhs) = uninit \<longrightarrow>
      (\<exists>w'. opAssign_Result T w this rhs = Some w' \<and>
         opAssign_Result_move T w this rhs = Some w' \<and>
         trace w' = trace w @ destroyed T this (state (mem w this)) \<and>
         state (mem w' this) = uninit)) \<and>
   (state (mem w rhs) = succeeded \<and> storage (mem w rhs) = AsS s \<and> rhs \<noteq> this \<longrightarrow>
      (\<exists>w'. opAssign_Result T w this rhs = Some w' \<and>
         trace w' = trace w @ destroyed T this (state (mem w this))
                      @ [(DefaultCtor, this, succeeded), (CopyAssign, this, succeeded)] \<and>
         state (mem w' this) = succeeded \<and> storage (mem w' this) = AsS s) \<and>
      (\<exists>w'. opAssign_Result_move T w this rhs = Some w' \<and>
         trace w' = trace w @ destroyed T this (state (mem w this))
                      @ [(DefaultCtor, this, succeeded), (MoveAssign, this, succeeded)] \<and>
         state (mem w' this) = succeeded \<and> storage (mem w' this) = AsS s)) \<and>
   (state (mem w rhs) = failed \<and> storage (mem w rhs) = AsF f \<and> rhs \<noteq> this \<longrightarrow>
      (\<exists>w'. opAssign_Result T w this rhs = Some w' \<and>
         trace w' = trace w @ destroyed T this (state (mem w this))
                      @ [(DefaultCtor, this, failed), (CopyAssign, this, failed)] \<and>
         state (mem w' this) = failed \<and> storage (mem w' this) = AsF f) \<and>
      (\<exists>w'. opAssign_Result_move T w this rhs = Some w' \<and>
         trace w' = trace w @ destroyed T this (state (mem w this))
                      @ [(DefaultCtor, this, failed), (MoveAssign, this, failed)] \<and>
         state (mem w' this) = failed \<and> storage (mem w' this) = AsF f)) \<and>
   (state (mem w this) = succeeded \<and> state (mem w rhs) = failed \<and> storage (mem w rhs) = AsF f \<longrightarrow>
      (\<exists>w'. opAssign_Result T w this rhs = Some w' \<and>
         \<not> opBool (mem w' this) \<and> fail (mem w' this) = Inr f \<and>
         trace w' = trace w @ [(if S_is_pod T then PodRelease else Dtor, this, succeeded),
                                (DefaultCtor, this, failed), (CopyAssign, this, failed)]) \<and>
      (\<exists>w'. opAssign_Result_move T w this rhs = Some w' \<and>
         \<not> opBool (mem w' this) \<and> fail (mem w' this) = Inr f \<and>
         trace w' = trace w @ [(if S_is_pod T then PodRelease else Dtor, this, succeeded),
                                (DefaultCtor, this, failed), (MoveAssign, this, failed)])) \<and>
   (\<exists>w'. opAssign_Result T w this this = Some w' \<and>
      trace w' = trace w @ destroyed T this (state (mem w this))
         @ (if state (mem w this) = uninit then []
            else [(DefaultCtor, this, state (mem w this)), (CopyAssign, this, state (mem w this))]) \<and>
      state (mem w' this) = state (mem w this) \<and>
      storage (mem w' this) =
        (case state (mem w this) of
           uninit \<Rightarrow> storage (mem w this)
         | succeeded \<Rightarrow> AsS (S_default T)
         | failed \<Rightarrow> AsF (F_default T))) \<and>
   (\<exists>w'. opAssign_Result_move T w this this = Some w' \<and>
      trace w' = trace w @ destroyed T this (state (mem w this))
         @ (if state (mem w this) = uninit then []
            else [(DefaultCtor, this, state (mem w this)), (MoveAssign, this, state (mem w this))]) \<and>
      state (mem w' this) = state (mem w this) \<and>
      storage (mem w' this) =
        (case state (mem w this) of
           uninit \<Rightarrow> storage (mem w this)
         | succeeded \<Rightarrow> AsS (S_moved_from T (S_default T))
         | failed \<Rightarrow> AsF (F_moved_from T (F_default T))))"
proof -
  have a: "read_S w p = Some s \<longrightarrow>
      (\<exists>w'. opAssign_S T w this p = Some w' \<and>
         trace w' = trace w @ destroyed T this (state (mem w this))
                      @ [(DefaultCtor, this, succeeded), (CopyAssign, this, succeeded)] \<and>
         state (mem w' this) = succeeded \<and>
         storage (mem w' this) = AsS (if p = StorageOf this then S_default T else s)) \<and>
      (\<exists>w'. opAssign_S_move T w this p = Some w' \<and>
         trace w' = trace w @ destroyed T this (state (mem w this))
                      @ [(DefaultCtor, this, succeeded), (MoveAssign, this, succeeded)] \<and>
         state (mem w' this) = succeeded \<and>
         storage (mem w' this) =
           AsS (if p = StorageOf this then S_moved_from T (S_default T) else s))"
    using assign_S [of w p s T this] assign_S_move [of w p s T this] by blast
  have b: "read_F w q = Some f \<longrightarrow>
      (\<exists>w'. opAssign_F T w this q = Some w' \<and>
         trace w' = trace w @ destroyed T this (state (mem w this))
                      @ [(DefaultCtor, this, failed), (CopyAssign, this, failed)] \<and>
         state (mem w' this) = failed \<and>
         storage (mem w' this) = AsF (if q = StorageOf this then F_default T else f)) \<and>
      (\<exists>w'. opAssign_F_move T w this q = Some w' \<and>
         trace w' = trace w @ destroyed T this (state (mem w this))
                      @ [(DefaultCtor, this, failed), (MoveAssign, this, failed)] \<and>
         state (mem w' this) = failed \<and>
         storage (mem w' this) =
           AsF (if q = StorageOf this then F_moved_from T (F_default T) else f))"
    using assign_F [of w q f T this] assign_F_move [of w q f T this] by blast
  have c: "state (mem w rhs) = succeeded \<and> storage (mem w rhs) = AsS s \<and> rhs \<noteq> this \<longrightarrow>
      (\<exists>w'. opAssign_Result T w this rhs = Some w' \<and>
         trace w' = trace w @ destroyed T this (state (mem w this))
                      @ [(DefaultCtor, this, succeeded), (CopyAssign, this, succeeded)] \<and>
         state (mem w' this) = succeeded \<and> storage (mem w' this) = AsS s) \<and>
      (\<exists>w'. opAssign_Result_move T w this rhs = Some w' \<and>
         trace w' = trace w @ destroyed T this (state (mem w this))
                      @ [(DefaultCtor, this, succeeded), (MoveAssign, this, succeeded)] \<and>
         state (mem w' this) = succeeded \<and> storage (mem w' this) = AsS s)"
    using assign_Result_succeeded [of w rhs s this T] assign_Result_move_succeeded [of w rhs s this T]
    by blast
  have d: "state (mem w rhs) = failed \<and> storage (mem w rhs) = AsF f \<and> rhs \<noteq> this \<longrightarrow>
      (\<exists>w'. opAssign_Result T w this rhs = Some w' \<and>
         trace w' = trace w @ destroyed T this (state (mem w this))
                      @ [(DefaultCtor, this, failed), (CopyAssign, this, failed)] \<and>
         state (mem w' this) = failed \<and> storage (mem w' this) = AsF f) \<and>
      (\<exists>w'. opAssign_Result_move T w this rhs = Some w' \<and>
         trace w' = trace w @ destroyed T this (state (mem w this))
                      @ [(DefaultCtor, this, failed), (MoveAssign, this, failed)] \<and>
         state (mem w' this) = failed \<and> storage (mem w' this) = AsF f)"
    using assign_Result_failed [of w rhs f this T] assign_Result_move_failed [of w rhs f this T]
    by blast
  show ?thesis
    using a b c d assign_Result_uninit [of w rhs T this] failed_over_succeeded [of w this rhs f T]
      assign_Result_self [of T w this] assign_Result_move_self [of T w this]
    by blast
qed

theorem Result_assignment_destroys_then_constructs_witness:
  "state (mem r5_and_boom 0) = succeeded \<and> storage (mem r5_and_boom 0) = AsS 5 \<and>
   state (mem r5_and_boom 1) = failed \<and> storage (mem r5_and_boom 1) = AsF ''boom'' \<and>
   (\<exists>w'. opAssign_Result int_string r5_and_boom 0 1 = Some w' \<and>
      \<not> opBool (mem w' 0) \<and> fail (mem w' 0) = Inr ''boom'' \<and>
      trace w' = trace r5_and_boom @
        [(PodRelease, 0, succeeded), (DefaultCtor, 0, failed), (CopyAssign, 0, failed)]) \<and>
   (\<exists>w'. opAssign_Result_move int_string r5_and_boom 0 1 = Some w' \<and>
      \<not> opBool (mem w' 0) \<and> fail (mem w' 0) = Inr ''boom'' \<and>
      trace w' = trace r5_and_boom @
        [(PodRelease, 0, succeeded), (DefaultCtor, 0, failed), (MoveAssign, 0, failed)]) \<and>
   (\<exists>w'. opAssign_Result int_string r5_and_boom 1 1 = Some w' \<and>
      trace w' = trace r5_and_boom @
        [(Dtor, 1, failed), (DefaultCtor, 1, failed), (CopyAssign, 1, failed)] \<and>
      storage (mem w' 1) = AsF []) \<and>
   (\<exists>w'. opAssign_S int_string r5_and_boom 1 (ExtS 7) = Some w' \<and>
      trace w' = trace r5_and_boom @
        [(Dtor, 1, failed), (DefaultCtor, 1, succeeded), (CopyAssign, 1, succeeded)] \<and>
      storage (mem w' 1) = AsS 7) \<and>
   (\<exists>w'. opAssign_S_move int_string r5_and_boom 1 (ExtS 7) = Some w' \<and>
      trace w' = trace r5_and_boom @
        [(Dtor, 1, failed), (DefaultCtor, 1, succeeded), (MoveAssign, 1, succeeded)] \<and>
      storage (mem w' 1) = AsS 7) \<and>
   (\<exists>w'. opAssign_F_move int_string r5_and_boom 0 (ExtF ''late'') = Some w' \<and>
      trace w' = trace r5_and_boom @
        [(PodRelease, 0, succeeded), (DefaultCtor, 0, failed), (MoveAssign, 0, failed)] \<and>
      storage (mem w' 0) = AsF ''late'') \<and>
   (\<exists>w'. opAssign_S int_string r5_and_boom 0 (StorageOf 0) = Some w' \<and>
      trace w' = trace r5_and_boom @
        [(PodRelease, 0, succeeded), (DefaultCtor, 0, succeeded), (CopyAssign, 0, succeeded)] \<and>
      storage (mem w' 0) = AsS 0)"
proof -
  have h: "state (mem r5_and_boom 0) = succeeded \<and> storage (mem r5_and_boom 0) = AsS 5 \<and>
      state (mem r5_and_boom 1) = failed \<and> storage (mem r5_and_boom 1) = AsF ''boom''"
    by (simp add: r5_and_boom_def with_r5_def junk_def Result_S_def Result_F_def alloc_defs)
  have pod: "S_is_pod int_string \<and> \<not> F_is_pod int_string \<and> S_default int_string = 0 \<and>
      F_default int_string = []"
    by (simp add: int_string_def)
  have rd: "read_S r5_and_boom (ExtS 7) = Some 7 \<and> read_F r5_and_boom (ExtF ''late'') = Some ''late''"
    by (simp add: read_S_def read_F_def)
  from h have rd0: "read_S r5_and_boom (StorageOf 0) = Some 5"
    by (simp add: read_S_def)
  note a = Result_assignment_destroys_then_constructs
    [of r5_and_boom "ExtS 7" 7 int_string 0 "ExtF ''late''" "''boom''" 1]
  note b = Result_assignment_destroys_then_constructs
    [of r5_and_boom "ExtS 7" 7 int_string 1 "ExtF ''late''" "''late''" 1]
  note c = Result_assignment_destroys_then_constructs
    [of r5_and_boom "StorageOf 0" 5 int_string 0 "ExtF ''late''" "''late''" 1]
  from a h pod have 1: "\<exists>w'. opAssign_Result int_string r5_and_boom 0 1 = Some w' \<and>
      \<not> opBool (mem w' 0) \<and> fail (mem w' 0) = Inr ''boom'' \<and>
      trace w' = trace r5_and_boom @
        [(PodRelease, 0, succeeded), (DefaultCtor, 0, failed), (CopyAssign, 0, failed)]"
    by auto
  from a h pod have 2: "\<exists>w'. opAssign_Result_move int_string r5_and_boom 0 1 = Some w' \<and>
      \<not> opBool (mem w' 0) \<and> fail (mem w' 0) = Inr ''boom'' \<and>
      trace w' = trace r5_and_boom @
        [(PodRelease, 0, succeeded), (DefaultCtor, 0, failed), (MoveAssign, 0, failed)]"
    by auto
  from b h pod have 3: "\<exists>w'. opAssign_Result int_string r5_and_boom 1 1 = Some w' \<and>
      trace w' = trace r5_and_boom @
        [(Dtor, 1, failed), (DefaultCtor, 1, failed), (CopyAssign, 1, failed)] \<and>
      storage (mem w' 1) = AsF []"
    by auto
  from b h pod rd have 4: "\<exists>w'. opAssign_S int_string r5_and_boom 1 (ExtS 7) = Some w' \<and>
      trace w' = trace r5_and_boom @
        [(Dtor, 1, failed), (DefaultCtor, 1, succeeded), (CopyAssign, 1, succeeded)] \<and>
      storage (mem w' 1) = AsS 7"
    by auto
  from b h pod rd have 5: "\<exists>w'. opAssign_S_move int_string r5_and_boom 1 (ExtS 7) = Some w' \<and>
      trace w' = trace r5_and_boom @
        [(Dtor, 1, failed), (DefaultCtor, 1, succeeded), (MoveAssign, 1, succeeded)] \<and>
      storage (mem w' 1) = AsS 7"
    by auto
  from c h pod rd have 6: "\<exists>w'. opAssign_F_move int_string r5_and_boom 0 (ExtF ''late'') = Some w' \<and>
      trace w' = trace r5_and_boom @
        [(PodRelease, 0, succeeded), (DefaultCtor, 0, failed), (MoveAssign, 0, failed)] \<and>
      storage (mem w' 0) = AsF ''late''"
    by auto
  from c h pod rd0 have 7: "\<exists>w'. opAssign_S int_string r5_and_boom 0 (StorageOf 0) = Some w' \<and>
      trace w' = trace r5_and_boom @
        [(PodRelease, 0, succeeded), (DefaultCtor, 0, succeeded), (CopyAssign, 0, succeeded)] \<and>
      storage (mem w' 0) = AsS 0"
    by auto
  from h 1 2 3 4 5 6 7 show ?thesis by blast
qed

section \<open>Properties of DeepCopyPtr\<close>

lemma fresh_above: "a \<in> fst ` set h \<Longrightarrow> a < fresh h"
proof (induction h)
  case Nil
  then show ?case by simp
next
  case (Cons x h)
  show ?case
  proof (cases "a = fst x")
    case True
    then show ?thesis by (simp add: fresh_def)
  next
    case False
    with Cons.prems have "a \<in> fst ` set h" by auto
    then have "a < fresh h" by (rule Cons.IH)
    then show ?thesis by (simp add: fresh_def)
  qed
qed

lemma map_of_fresh: "map_of h (fresh h) = None"
  using fresh_above [of "fresh h" h] by (auto simp: map_of_eq_None_iff)

lemma fresh_not_live: "map_of h a = Some ob \<Longrightarrow> fresh h \<noteq> a"
  using map_of_fresh [of h] by auto

text \<open>
  C9, as the code has it. Assigning a \<^verbatim>\<open>DeepCopyPtr\<close> to itself returns at the
  test \<^verbatim>\<open>this == &rhs\<close>: nothing is deleted, nothing is allocated, and the
  memory is what it was.
\<close>

theorem self_assignment_is_no_op:
  "opAssign_This cc T w this this = Some w"
  by (simp add: opAssign_This_def)

text \<open>
  C9 as stated fails: after \<^verbatim>\<open>lhs = lhs\<close> the held address is the one held
  before, no new allocation, and no object was destroyed.
\<close>

theorem self_assignment_counterexample:
  "get lhs_C1 0 = Some 1 \<and>
   get (the (opAssign_This fixture_copy C lhs_C1 0 0)) 0 = Some 1 \<and>
   heap (the (opAssign_This fixture_copy C lhs_C1 0 0)) = heap lhs_C1 \<and>
   deleted (the (opAssign_This fixture_copy C lhs_C1 0 0)) = []"
  by (simp add: opAssign_This_def lhs_C1_def heap_C1_def DeepCopyPtr_ptr_def from_ptr_def
      put_var_def get_def)

text \<open>
  C10. When the held pointer is null, \<^verbatim>\<open>doDelete\<close> (and so the destructor)
  succeeds, deletes no object and leaves the heap as it was; without a deleter
  it changes nothing at all, with a deleter the deleter's call on the null
  pointer does nothing; and every later \<^verbatim>\<open>doDelete\<close> changes nothing.
\<close>

theorem doDelete_null_is_safe:
  assumes "ptr (vars w this) = None"
  shows "\<exists>w'. doDelete w this = Some w' \<and> DeepCopyPtr_dtor w this = Some w' \<and>
           heap w' = heap w \<and> deleted w' = deleted w \<and>
           ptr (vars w' this) = None \<and> deleter (vars w' this) = None \<and>
           (deleter (vars w this) = None \<longrightarrow> w' = w) \<and>
           (\<forall>X. deleter (vars w this) = Some X \<longrightarrow> Deleter_call X w (ptr (vars w this)) = Some w) \<and>
           doDelete w' this = Some w'"
  using assms
  by (cases "deleter (vars w this)")
     (simp_all add: doDelete_def doDelete_obj_def Deleter_call_def DeepCopyPtr_dtor_def put_var_def)

theorem doDelete_null_is_safe_witness:
  "ptr (vars (the (opAssign_ptr fixture_copy C lhs_C1 0 None)) 0) = None \<and>
   (\<exists>w'. doDelete (the (opAssign_ptr fixture_copy C lhs_C1 0 None)) 0 = Some w' \<and>
      heap w' = heap (the (opAssign_ptr fixture_copy C lhs_C1 0 None)) \<and>
      deleted w' = deleted (the (opAssign_ptr fixture_copy C lhs_C1 0 None)) \<and>
      doDelete w' 0 = Some w')"
proof -
  have h: "ptr (vars (the (opAssign_ptr fixture_copy C lhs_C1 0 None)) 0) = None"
    by (simp add: opAssign_ptr_def lhs_C1_def heap_C1_def DeepCopyPtr_ptr_def from_ptr_def
        put_var_def get_def doDelete_def doDelete_obj_def Deleter_call_def)
  from doDelete_null_is_safe [OF h] obtain w' where
    "doDelete (the (opAssign_ptr fixture_copy C lhs_C1 0 None)) 0 = Some w'"
    "heap w' = heap (the (opAssign_ptr fixture_copy C lhs_C1 0 None))"
    "deleted w' = deleted (the (opAssign_ptr fixture_copy C lhs_C1 0 None))"
    "doDelete w' 0 = Some w'"
    by blast
  with h show ?thesis by blast
qed

subsection \<open>Copy construction\<close>

text \<open>
  C1, as the code has it. Copy-constructing from a non-null \<^verbatim>\<open>DeepCopyPtr<U>\<close>,
  by either copy constructor, makes the new pointee by \<^verbatim>\<open>new U(*src.get())\<close>: it
  is at an address that held no object and differs from the source's, it is
  allocated as a \<open>U\<close>, the static element type of the source, whatever class
  the source's pointee was allocated as, its value is what the copy constructor
  of \<open>U\<close> makes of the source's pointee, and the source keeps its pointee. The
  new deleter is a \<^verbatim>\<open>Deleter<U>\<close>, so destroying the copy deletes the new object
  as a \<open>U\<close>, the class it was allocated as.
\<close>

theorem copy_construct_clones_as_static_type:
  assumes "ptr (vars w src) = Some a" "map_of (heap w) a = Some ob"
  shows "\<exists>b w'. DeepCopyPtr_copy cc U w this src = Some w' \<and>
           DeepCopyPtr_copy_Some cc U w this src = Some w' \<and>
           ptr (vars w' this) = Some b \<and> b \<noteq> a \<and> map_of (heap w) b = None \<and>
           pointee w' this = Some \<lparr>dyn = U, val = cc U (val ob)\<rparr> \<and>
           map_of (heap w') a = Some ob \<and>
           deleter (vars w' this) = Some U \<and> deleted w' = deleted w \<and>
           (\<exists>w''. DeepCopyPtr_dtor w' this = Some w'' \<and>
              deleted w'' = deleted w @ [\<lparr>target = b, as_type = U, dyn_type = U\<rparr>] \<and>
              map_of (heap w'') b = None \<and> map_of (heap w'') a = Some ob)"
  using assms fresh_not_live [OF assms(2)] map_of_fresh [of "heap w"]
  by (auto simp add: DeepCopyPtr_copy_def DeepCopyPtr_copy_Some_def copy_init_def new_copy_def
        put_var_def pointee_def DeepCopyPtr_dtor_def doDelete_def doDelete_obj_def Deleter_call_def
        AList.delete_conv')

theorem copy_construct_clones_as_static_type_witness:
  "ptr (vars base_holds_derived 0) = Some 1 \<and>
   map_of (heap base_holds_derived) 1 = Some \<lparr>dyn = D, val = 42\<rparr> \<and>
   (\<exists>b w'. DeepCopyPtr_copy fixture_copy C base_holds_derived 1 0 = Some w' \<and>
      ptr (vars w' 1) = Some b \<and> b \<noteq> 1 \<and>
      pointee w' 1 = Some \<lparr>dyn = C, val = 42\<rparr> \<and> deleter (vars w' 1) = Some C)"
proof -
  have h1: "ptr (vars base_holds_derived 0) = Some 1"
    by (simp add: base_holds_derived_def heap_D42_def DeepCopyPtr_DerivedPtr_def from_ptr_def
        put_var_def)
  have h2: "map_of (heap base_holds_derived) 1 = Some \<lparr>dyn = D, val = 42\<rparr>"
    by (simp add: base_holds_derived_def heap_D42_def DeepCopyPtr_DerivedPtr_def put_var_def)
  from copy_construct_clones_as_static_type [OF h1 h2, of fixture_copy C 1]
  have "\<exists>b w'. DeepCopyPtr_copy fixture_copy C base_holds_derived 1 0 = Some w' \<and>
      ptr (vars w' 1) = Some b \<and> b \<noteq> 1 \<and>
      pointee w' 1 = Some \<lparr>dyn = C, val = 42\<rparr> \<and> deleter (vars w' 1) = Some C"
    by (auto simp add: fixture_copy_def)
  with h1 h2 show ?thesis by blast
qed

text \<open>
  C1 as stated fails on the scenario \<^verbatim>\<open>DeepCopyPtr<C> b = new D(42);\<close>
  \<^verbatim>\<open>DeepCopyPtr<C> b2(b);\<close>: the pointee of \<^verbatim>\<open>b\<close> was allocated as a \<^verbatim>\<open>D\<close> and is
  deleted as one, but the pointee of \<^verbatim>\<open>b2\<close> is allocated as a \<^verbatim>\<open>C\<close>, not as a \<^verbatim>\<open>D\<close>,
  and destroying \<^verbatim>\<open>b2\<close> deletes it through a \<^verbatim>\<open>Deleter<C>\<close>.
\<close>

theorem copy_construct_counterexample:
  "pointee base_holds_derived 0 = Some \<lparr>dyn = D, val = 42\<rparr> \<and>
   deleter (vars base_holds_derived 0) = Some D \<and>
   DeepCopyPtr_copy fixture_copy C base_holds_derived 1 0 \<noteq> None \<and>
   pointee base_copied 1 = Some \<lparr>dyn = C, val = 42\<rparr> \<and>
   pointee base_copied 1 \<noteq> Some \<lparr>dyn = D, val = 42\<rparr> \<and>
   deleter (vars base_copied 1) = Some C \<and>
   deleted (the (DeepCopyPtr_dtor base_copied 1)) = [\<lparr>target = 2, as_type = C, dyn_type = C\<rparr>]"
  by (simp add: base_copied_def base_holds_derived_def heap_D42_def no_var_def fixture_copy_def
        DeepCopyPtr_DerivedPtr_def from_ptr_def DeepCopyPtr_copy_def copy_init_def new_copy_def
        fresh_def put_var_def pointee_def DeepCopyPtr_dtor_def doDelete_def doDelete_obj_def
        Deleter_call_def)

subsection \<open>The deleter after an assignment\<close>

text \<open>
  C2 on the code. After \<^verbatim>\<open>DeepCopyPtr<C> lhs(new C(1)); lhs = (C *)0;\<close> the pointer
  is null and the deleter is not, and the same after \<^verbatim>\<open>lhs = (D *)0\<close>: both
  pointer assignments make the deleter without the test of the pointer that
  the constructors have. After \<^verbatim>\<open>DeepCopyPtr<C> c; DeepCopyPtr<D> d(new D(1));\<close>
  \<^verbatim>\<open>c = d;\<close> the pointee of \<^verbatim>\<open>c\<close> is allocated as a \<^verbatim>\<open>C\<close> and its deleter is a
  \<^verbatim>\<open>Deleter<D>\<close>, which then deletes the \<^verbatim>\<open>C\<close> object as a \<^verbatim>\<open>D\<close>.
\<close>

theorem deleter_invariant_broken_by_assignment:
  "get lhs_C1 0 = Some 1 \<and> deleter (vars lhs_C1 0) = Some C \<and>
   opAssign_ptr fixture_copy C lhs_C1 0 None \<noteq> None \<and>
   ptr (vars (the (opAssign_ptr fixture_copy C lhs_C1 0 None)) 0) = None \<and>
   deleter (vars (the (opAssign_ptr fixture_copy C lhs_C1 0 None)) 0) = Some C \<and>
   opAssign_SomePtr fixture_copy D lhs_C1 0 None \<noteq> None \<and>
   ptr (vars (the (opAssign_SomePtr fixture_copy D lhs_C1 0 None)) 0) = None \<and>
   deleter (vars (the (opAssign_SomePtr fixture_copy D lhs_C1 0 None)) 0) = Some D \<and>
   opAssign_Derived fixture_copy C D c_and_d 0 1 \<noteq> None \<and>
   pointee (the (opAssign_Derived fixture_copy C D c_and_d 0 1)) 0 = Some \<lparr>dyn = C, val = 1\<rparr> \<and>
   deleter (vars (the (opAssign_Derived fixture_copy C D c_and_d 0 1)) 0) = Some D \<and>
   deleted (the (DeepCopyPtr_dtor (the (opAssign_Derived fixture_copy C D c_and_d 0 1)) 0))
     = [\<lparr>target = 2, as_type = D, dyn_type = C\<rparr>]"
  by (simp add: lhs_C1_def heap_C1_def c_and_d_def heap_D1_def no_var_def fixture_copy_def
        DeepCopyPtr_ptr_def DeepCopyPtr_default_def from_ptr_def opAssign_ptr_def
        opAssign_SomePtr_def opAssign_Derived_def get_def new_copy_def
        fresh_def put_var_def pointee_def DeepCopyPtr_dtor_def doDelete_def doDelete_obj_def
        Deleter_call_def)

subsection \<open>Assignment\<close>

lemma doDelete_owner:
  assumes "case ptr (vars w this) of None \<Rightarrow> True
           | Some a \<Rightarrow> deleter (vars w this) \<noteq> None \<and> map_of (heap w) a \<noteq> None"
  shows "doDelete w this =
           Some (w\<lparr>heap := (case ptr (vars w this) of None \<Rightarrow> heap w | Some a \<Rightarrow> AList.delete a (heap w)),
                   vars := (vars w)(this := \<lparr>ptr = None, deleter = None\<rparr>),
                   deleted := deleted w @ destroyed_pointee w this\<rparr>)"
proof (cases "deleter (vars w this)")
  case None
  with assms have "ptr (vars w this) = None"
    by (cases "ptr (vars w this)") simp_all
  with None have "vars w this = \<lparr>ptr = None, deleter = None\<rparr>"
    by (cases "vars w this") simp
  then have "(vars w)(this := \<lparr>ptr = None, deleter = None\<rparr>) = vars w"
    by (metis fun_upd_triv)
  with None \<open>ptr (vars w this) = None\<close> show ?thesis
    by (simp add: doDelete_def doDelete_obj_def put_var_def)
next
  case (Some X)
  with assms show ?thesis
    by (cases "ptr (vars w this)")
       (auto simp add: doDelete_def doDelete_obj_def Deleter_call_def put_var_def)
qed

lemma heap_after_delete:
  assumes "ptr (vars w this) \<noteq> Some b" "map_of (heap w) b = Some ob"
  shows "map_of (heap_without_pointee w this) b = Some ob"
  using assms by (cases "ptr (vars w this)") simp_all

lemma assign_null_This:
  assumes wf: "case ptr (vars w this) of None \<Rightarrow> True
           | Some a \<Rightarrow> deleter (vars w this) \<noteq> None \<and> map_of (heap w) a \<noteq> None"
    and "this \<noteq> rhs" "ptr (vars w rhs) = None"
  shows "\<exists>w'. opAssign_This cc T w this rhs = Some w' \<and>
           opAssign_Derived cc T U w this rhs = Some w' \<and>
           get w' this = None \<and> deleted w' = deleted w @ destroyed_pointee w this \<and>
           heap w' = heap_without_pointee w this"
  using assms(2,3)
  by (simp add: opAssign_This_def opAssign_Derived_def doDelete_owner [OF wf] get_def)

lemma assign_null_ptr:
  assumes wf: "case ptr (vars w this) of None \<Rightarrow> True
           | Some a \<Rightarrow> deleter (vars w this) \<noteq> None \<and> map_of (heap w) a \<noteq> None"
  shows "\<exists>w'. opAssign_ptr cc T w this None = Some w' \<and>
           get w' this = None \<and> deleted w' = deleted w @ destroyed_pointee w this \<and>
           heap w' = heap_without_pointee w this"
  by (cases "ptr (vars w this)")
     (simp_all add: opAssign_ptr_def doDelete_owner [OF wf] get_def put_var_def)

lemma assign_null_SomePtr:
  assumes wf: "case ptr (vars w this) of None \<Rightarrow> True
           | Some a \<Rightarrow> deleter (vars w this) \<noteq> None \<and> map_of (heap w) a \<noteq> None"
  shows "\<exists>w'. opAssign_SomePtr cc U w this None = Some w' \<and>
           get w' this = None \<and> deleted w' = deleted w @ destroyed_pointee w this \<and>
           heap w' = heap_without_pointee w this"
  by (simp add: opAssign_SomePtr_def doDelete_owner [OF wf] get_def put_var_def)

lemma assign_clone_This:
  assumes wf: "case ptr (vars w this) of None \<Rightarrow> True
           | Some a \<Rightarrow> deleter (vars w this) \<noteq> None \<and> map_of (heap w) a \<noteq> None"
    and "this \<noteq> rhs" "ptr (vars w rhs) = Some b" "ptr (vars w this) \<noteq> Some b"
      "map_of (heap w) b = Some ob"
  shows "\<exists>w'. opAssign_This cc T w this rhs = Some w' \<and>
           get w' this = Some (fresh (heap_without_pointee w this)) \<and>
           fresh (heap_without_pointee w this) \<noteq> b \<and>
           heap w' = (fresh (heap_without_pointee w this), \<lparr>dyn = T, val = cc T (val ob)\<rparr>)
                       # heap_without_pointee w this \<and>
           pointee w' this = Some \<lparr>dyn = T, val = cc T (val ob)\<rparr> \<and>
           deleter (vars w' this) = Some T \<and>
           get w' rhs = Some b \<and> map_of (heap w') b = Some ob \<and>
           deleted w' = deleted w @ destroyed_pointee w this"
  using assms(2,3) fresh_not_live [OF heap_after_delete [OF assms(4,5)]]
  by (simp add: opAssign_This_def doDelete_owner [OF wf] get_def put_var_def pointee_def
        new_copy_def heap_after_delete [OF assms(4,5)])

lemma assign_clone_Derived:
  assumes wf: "case ptr (vars w this) of None \<Rightarrow> True
           | Some a \<Rightarrow> deleter (vars w this) \<noteq> None \<and> map_of (heap w) a \<noteq> None"
    and "this \<noteq> rhs" "ptr (vars w rhs) = Some b" "ptr (vars w this) \<noteq> Some b"
      "map_of (heap w) b = Some ob"
  shows "\<exists>w'. opAssign_Derived cc T U w this rhs = Some w' \<and>
           get w' this = Some (fresh (heap_without_pointee w this)) \<and>
           fresh (heap_without_pointee w this) \<noteq> b \<and>
           heap w' = (fresh (heap_without_pointee w this), \<lparr>dyn = T, val = cc T (val ob)\<rparr>)
                       # heap_without_pointee w this \<and>
           pointee w' this = Some \<lparr>dyn = T, val = cc T (val ob)\<rparr> \<and>
           deleter (vars w' this) = Some U \<and>
           get w' rhs = Some b \<and> map_of (heap w') b = Some ob \<and>
           deleted w' = deleted w @ destroyed_pointee w this"
  using assms(2,3) fresh_not_live [OF heap_after_delete [OF assms(4,5)]]
  by (simp add: opAssign_Derived_def doDelete_owner [OF wf] get_def put_var_def pointee_def
        new_copy_def heap_after_delete [OF assms(4,5)])

lemma assign_clone_ptr:
  assumes wf: "case ptr (vars w this) of None \<Rightarrow> True
           | Some a \<Rightarrow> deleter (vars w this) \<noteq> None \<and> map_of (heap w) a \<noteq> None"
    and "ptr (vars w this) \<noteq> Some b" "map_of (heap w) b = Some ob"
  shows "\<exists>w'. opAssign_ptr cc T w this (Some b) = Some w' \<and>
           get w' this = Some (fresh (heap_without_pointee w this)) \<and>
           fresh (heap_without_pointee w this) \<noteq> b \<and>
           heap w' = (fresh (heap_without_pointee w this), \<lparr>dyn = T, val = cc T (val ob)\<rparr>)
                       # heap_without_pointee w this \<and>
           pointee w' this = Some \<lparr>dyn = T, val = cc T (val ob)\<rparr> \<and>
           deleter (vars w' this) = Some T \<and>
           map_of (heap w') b = Some ob \<and>
           deleted w' = deleted w @ destroyed_pointee w this"
  using assms(2) fresh_not_live [OF heap_after_delete [OF assms(2,3)]]
  by (simp add: opAssign_ptr_def doDelete_owner [OF wf] get_def put_var_def pointee_def
        new_copy_def heap_after_delete [OF assms(2,3)])

lemma assign_clone_SomePtr:
  assumes wf: "case ptr (vars w this) of None \<Rightarrow> True
           | Some a \<Rightarrow> deleter (vars w this) \<noteq> None \<and> map_of (heap w) a \<noteq> None"
    and "ptr (vars w this) \<noteq> Some b" "map_of (heap w) b = Some ob"
  shows "\<exists>w'. opAssign_SomePtr cc U w this (Some b) = Some w' \<and>
           get w' this = Some (fresh (heap_without_pointee w this)) \<and>
           fresh (heap_without_pointee w this) \<noteq> b \<and>
           heap w' = (fresh (heap_without_pointee w this), \<lparr>dyn = U, val = cc U (val ob)\<rparr>)
                       # heap_without_pointee w this \<and>
           pointee w' this = Some \<lparr>dyn = U, val = cc U (val ob)\<rparr> \<and>
           deleter (vars w' this) = Some U \<and>
           map_of (heap w') b = Some ob \<and>
           deleted w' = deleted w @ destroyed_pointee w this"
  using assms(2) fresh_not_live [OF heap_after_delete [OF assms(2,3)]]
  by (simp add: opAssign_SomePtr_def doDelete_owner [OF wf] get_def put_var_def pointee_def
        new_copy_def heap_after_delete [OF assms(2,3)])

text \<open>
  The template \<^verbatim>\<open>operator=(const SomeType *const)\<close> has no test of the held
  address: given the address the object holds, it deletes the pointee and then
  copies from the deleted object, which is undefined behaviour.
\<close>

lemma SomePtr_held_address_is_undefined:
  assumes "ptr (vars w this) = Some a" "deleter (vars w this) \<noteq> None" "map_of (heap w) a \<noteq> None"
  shows "opAssign_SomePtr cc U w this (get w this) = None"
proof -
  from assms have wf: "case ptr (vars w this) of None \<Rightarrow> True
      | Some a \<Rightarrow> deleter (vars w this) \<noteq> None \<and> map_of (heap w) a \<noteq> None"
    by simp
  from assms(1) show ?thesis
    by (simp add: opAssign_SomePtr_def doDelete_owner [OF wf] get_def new_copy_def
        AList.delete_conv')
qed

text \<open>
  C3, as the code has it. For a \<^verbatim>\<open>DeepCopyPtr\<close> that is null or owns a live
  pointee: assignment from another \<^verbatim>\<open>DeepCopyPtr\<close> object, or from a raw pointer
  other than the held one, first destroys the current pointee through the
  deleter (one deletion when there is a pointee, none otherwise) and only then
  allocates: the new object takes its address in the heap that no longer has
  the old pointee. A null source of any of the four forms leaves the object
  null. A non-null source is cloned, for a raw pointer as for a
  \<^verbatim>\<open>DeepCopyPtr\<close>: the new pointee is copy-constructed from the source's, the
  held address is never the source address, and the source object stays live
  (the class has no assignment that adopts a pointer). Assigning an object to
  itself, or assigning the held address by \<^verbatim>\<open>operator=(const element_type *const)\<close>,
  does nothing.
\<close>

theorem assignment_destroys_then_clones:
  assumes "case ptr (vars w this) of None \<Rightarrow> True
           | Some a \<Rightarrow> deleter (vars w this) \<noteq> None \<and> map_of (heap w) a \<noteq> None"
  shows
   "(this \<noteq> rhs \<and> ptr (vars w rhs) = None \<longrightarrow>
      (\<exists>w'. opAssign_This cc T w this rhs = Some w' \<and>
         opAssign_Derived cc T U w this rhs = Some w' \<and>
         get w' this = None \<and> deleted w' = deleted w @ destroyed_pointee w this \<and>
         heap w' = heap_without_pointee w this)) \<and>
    (\<exists>w'. opAssign_ptr cc T w this None = Some w' \<and>
       get w' this = None \<and> deleted w' = deleted w @ destroyed_pointee w this \<and>
       heap w' = heap_without_pointee w this) \<and>
    (\<exists>w'. opAssign_SomePtr cc U w this None = Some w' \<and>
       get w' this = None \<and> deleted w' = deleted w @ destroyed_pointee w this \<and>
       heap w' = heap_without_pointee w this) \<and>
    (this \<noteq> rhs \<and> ptr (vars w rhs) = Some b \<and> ptr (vars w this) \<noteq> Some b \<and>
       map_of (heap w) b = Some ob \<longrightarrow>
      (\<exists>w'. opAssign_This cc T w this rhs = Some w' \<and>
         get w' this = Some (fresh (heap_without_pointee w this)) \<and>
         fresh (heap_without_pointee w this) \<noteq> b \<and>
         heap w' = (fresh (heap_without_pointee w this), \<lparr>dyn = T, val = cc T (val ob)\<rparr>)
                     # heap_without_pointee w this \<and>
         pointee w' this = Some \<lparr>dyn = T, val = cc T (val ob)\<rparr> \<and>
         deleter (vars w' this) = Some T \<and>
         get w' rhs = Some b \<and> map_of (heap w') b = Some ob \<and>
         deleted w' = deleted w @ destroyed_pointee w this) \<and>
      (\<exists>w'. opAssign_Derived cc T U w this rhs = Some w' \<and>
         get w' this = Some (fresh (heap_without_pointee w this)) \<and>
         fresh (heap_without_pointee w this) \<noteq> b \<and>
         heap w' = (fresh (heap_without_pointee w this), \<lparr>dyn = T, val = cc T (val ob)\<rparr>)
                     # heap_without_pointee w this \<and>
         pointee w' this = Some \<lparr>dyn = T, val = cc T (val ob)\<rparr> \<and>
         deleter (vars w' this) = Some U \<and>
         get w' rhs = Some b \<and> map_of (heap w') b = Some ob \<and>
         deleted w' = deleted w @ destroyed_pointee w this)) \<and>
    (ptr (vars w this) \<noteq> Some b \<and> map_of (heap w) b = Some ob \<longrightarrow>
      (\<exists>w'. opAssign_ptr cc T w this (Some b) = Some w' \<and>
         get w' this = Some (fresh (heap_without_pointee w this)) \<and>
         fresh (heap_without_pointee w this) \<noteq> b \<and>
         heap w' = (fresh (heap_without_pointee w this), \<lparr>dyn = T, val = cc T (val ob)\<rparr>)
                     # heap_without_pointee w this \<and>
         pointee w' this = Some \<lparr>dyn = T, val = cc T (val ob)\<rparr> \<and>
         deleter (vars w' this) = Some T \<and>
         map_of (heap w') b = Some ob \<and>
         deleted w' = deleted w @ destroyed_pointee w this) \<and>
      (\<exists>w'. opAssign_SomePtr cc U w this (Some b) = Some w' \<and>
         get w' this = Some (fresh (heap_without_pointee w this)) \<and>
         fresh (heap_without_pointee w this) \<noteq> b \<and>
         heap w' = (fresh (heap_without_pointee w this), \<lparr>dyn = U, val = cc U (val ob)\<rparr>)
                     # heap_without_pointee w this \<and>
         pointee w' this = Some \<lparr>dyn = U, val = cc U (val ob)\<rparr> \<and>
         deleter (vars w' this) = Some U \<and>
         map_of (heap w') b = Some ob \<and>
         deleted w' = deleted w @ destroyed_pointee w this)) \<and>
    opAssign_This cc T w this this = Some w \<and>
    opAssign_ptr cc T w this (get w this) = Some w \<and>
    (ptr (vars w this) \<noteq> None \<longrightarrow> length (destroyed_pointee w this) = 1)"
proof -
  note wf = assms
  have same: "opAssign_This cc T w this this = Some w \<and>
      opAssign_ptr cc T w this (get w this) = Some w"
    by (simp add: opAssign_This_def opAssign_ptr_def)
  have once: "ptr (vars w this) \<noteq> None \<longrightarrow> length (destroyed_pointee w this) = 1"
    by (cases "ptr (vars w this)") simp_all
  have clone_obj: "this \<noteq> rhs \<and> ptr (vars w rhs) = Some b \<and> ptr (vars w this) \<noteq> Some b \<and>
       map_of (heap w) b = Some ob \<longrightarrow>
      (\<exists>w'. opAssign_This cc T w this rhs = Some w' \<and>
         get w' this = Some (fresh (heap_without_pointee w this)) \<and>
         fresh (heap_without_pointee w this) \<noteq> b \<and>
         heap w' = (fresh (heap_without_pointee w this), \<lparr>dyn = T, val = cc T (val ob)\<rparr>)
                     # heap_without_pointee w this \<and>
         pointee w' this = Some \<lparr>dyn = T, val = cc T (val ob)\<rparr> \<and>
         deleter (vars w' this) = Some T \<and>
         get w' rhs = Some b \<and> map_of (heap w') b = Some ob \<and>
         deleted w' = deleted w @ destroyed_pointee w this) \<and>
      (\<exists>w'. opAssign_Derived cc T U w this rhs = Some w' \<and>
         get w' this = Some (fresh (heap_without_pointee w this)) \<and>
         fresh (heap_without_pointee w this) \<noteq> b \<and>
         heap w' = (fresh (heap_without_pointee w this), \<lparr>dyn = T, val = cc T (val ob)\<rparr>)
                     # heap_without_pointee w this \<and>
         pointee w' this = Some \<lparr>dyn = T, val = cc T (val ob)\<rparr> \<and>
         deleter (vars w' this) = Some U \<and>
         get w' rhs = Some b \<and> map_of (heap w') b = Some ob \<and>
         deleted w' = deleted w @ destroyed_pointee w this)"
    using assign_clone_This [OF wf, of rhs b ob cc T] assign_clone_Derived [OF wf, of rhs b ob cc T U]
    by blast
  have clone_ptr: "ptr (vars w this) \<noteq> Some b \<and> map_of (heap w) b = Some ob \<longrightarrow>
      (\<exists>w'. opAssign_ptr cc T w this (Some b) = Some w' \<and>
         get w' this = Some (fresh (heap_without_pointee w this)) \<and>
         fresh (heap_without_pointee w this) \<noteq> b \<and>
         heap w' = (fresh (heap_without_pointee w this), \<lparr>dyn = T, val = cc T (val ob)\<rparr>)
                     # heap_without_pointee w this \<and>
         pointee w' this = Some \<lparr>dyn = T, val = cc T (val ob)\<rparr> \<and>
         deleter (vars w' this) = Some T \<and>
         map_of (heap w') b = Some ob \<and>
         deleted w' = deleted w @ destroyed_pointee w this) \<and>
      (\<exists>w'. opAssign_SomePtr cc U w this (Some b) = Some w' \<and>
         get w' this = Some (fresh (heap_without_pointee w this)) \<and>
         fresh (heap_without_pointee w this) \<noteq> b \<and>
         heap w' = (fresh (heap_without_pointee w this), \<lparr>dyn = U, val = cc U (val ob)\<rparr>)
                     # heap_without_pointee w this \<and>
         pointee w' this = Some \<lparr>dyn = U, val = cc U (val ob)\<rparr> \<and>
         deleter (vars w' this) = Some U \<and>
         map_of (heap w') b = Some ob \<and>
         deleted w' = deleted w @ destroyed_pointee w this)"
    using assign_clone_ptr [OF wf, of b ob cc T] assign_clone_SomePtr [OF wf, of b ob cc U]
    by blast
  from assign_null_This [OF wf, of rhs cc T U] assign_null_ptr [OF wf, of cc T]
    assign_null_SomePtr [OF wf, of cc U] clone_obj clone_ptr same once
  show ?thesis by blast
qed

theorem assignment_destroys_then_clones_witness:
  "(case ptr (vars lhs_C1 0) of None \<Rightarrow> True
    | Some a \<Rightarrow> deleter (vars lhs_C1 0) \<noteq> None \<and> map_of (heap lhs_C1) a \<noteq> None) \<and>
   (\<exists>w'. opAssign_This fixture_copy C lhs_C1 0 1 = Some w' \<and> get w' 0 = None \<and>
      deleted w' = [\<lparr>target = 1, as_type = C, dyn_type = C\<rparr>] \<and> heap w' = []) \<and>
   (\<exists>w'. opAssign_ptr fixture_copy C lhs_C1 0 None = Some w' \<and> get w' 0 = None \<and>
      deleted w' = [\<lparr>target = 1, as_type = C, dyn_type = C\<rparr>] \<and> heap w' = []) \<and>
   (\<exists>w'. opAssign_This fixture_copy D c_and_d 0 1 = Some w' \<and> get w' 0 = Some 2 \<and>
      pointee w' 0 = Some \<lparr>dyn = D, val = 1\<rparr> \<and> get w' 1 = Some 1 \<and> deleted w' = []) \<and>
   (\<exists>w'. opAssign_ptr fixture_copy D dsp_and_dlp 0 (Some 1) = Some w' \<and> get w' 0 = Some 2 \<and>
      pointee w' 0 = Some \<lparr>dyn = D, val = 1\<rparr> \<and>
      map_of (heap w') 1 = Some \<lparr>dyn = D, val = 1\<rparr>) \<and>
   (\<exists>w'. opAssign_This fixture_copy C two_owners 0 1 = Some w' \<and> get w' 0 = Some 2 \<and>
      heap w' = [(2, \<lparr>dyn = C, val = 1\<rparr>), (1, \<lparr>dyn = C, val = 1\<rparr>)] \<and>
      deleted w' = [\<lparr>target = 2, as_type = C, dyn_type = C\<rparr>])"
proof -
  have v: "vars lhs_C1 0 = \<lparr>ptr = Some 1, deleter = Some C\<rparr> \<and> vars lhs_C1 1 = no_var \<and>
      heap lhs_C1 = [(1, \<lparr>dyn = C, val = 1\<rparr>)] \<and> deleted lhs_C1 = []"
    by (simp add: lhs_C1_def heap_C1_def DeepCopyPtr_ptr_def from_ptr_def put_var_def)
  then have h1: "case ptr (vars lhs_C1 0) of None \<Rightarrow> True
      | Some a \<Rightarrow> deleter (vars lhs_C1 0) \<noteq> None \<and> map_of (heap lhs_C1) a \<noteq> None"
    by simp
  have u: "vars c_and_d 0 = no_var \<and> vars c_and_d 1 = \<lparr>ptr = Some 1, deleter = Some D\<rparr> \<and>
      heap c_and_d = [(1, \<lparr>dyn = D, val = 1\<rparr>)] \<and> deleted c_and_d = []"
    by (simp add: c_and_d_def heap_D1_def DeepCopyPtr_ptr_def DeepCopyPtr_default_def from_ptr_def
        put_var_def no_var_def)
  then have h2: "case ptr (vars c_and_d 0) of None \<Rightarrow> True
      | Some a \<Rightarrow> deleter (vars c_and_d 0) \<noteq> None \<and> map_of (heap c_and_d) a \<noteq> None"
    by (simp add: no_var_def)
  have t: "vars dsp_and_dlp 0 = no_var \<and>
      heap dsp_and_dlp = [(1, \<lparr>dyn = D, val = 1\<rparr>)] \<and> deleted dsp_and_dlp = []"
    by (simp add: dsp_and_dlp_def heap_D1_def DeepCopyPtr_default_def put_var_def no_var_def)
  then have h3: "case ptr (vars dsp_and_dlp 0) of None \<Rightarrow> True
      | Some a \<Rightarrow> deleter (vars dsp_and_dlp 0) \<noteq> None \<and> map_of (heap dsp_and_dlp) a \<noteq> None"
    by (simp add: no_var_def)
  have o: "vars two_owners 0 = \<lparr>ptr = Some 2, deleter = Some C\<rparr> \<and>
      vars two_owners 1 = \<lparr>ptr = Some 1, deleter = Some C\<rparr> \<and>
      heap two_owners = [(2, \<lparr>dyn = C, val = 7\<rparr>), (1, \<lparr>dyn = C, val = 1\<rparr>)] \<and>
      deleted two_owners = []"
    by (simp add: two_owners_def heap_two_def DeepCopyPtr_ptr_def from_ptr_def put_var_def)
  then have h4: "case ptr (vars two_owners 0) of None \<Rightarrow> True
      | Some a \<Rightarrow> deleter (vars two_owners 0) \<noteq> None \<and> map_of (heap two_owners) a \<noteq> None"
    by simp
  from assignment_destroys_then_clones [OF h1, of 1 fixture_copy C D 1 "\<lparr>dyn = C, val = 1\<rparr>"] v
  have 1: "\<exists>w'. opAssign_This fixture_copy C lhs_C1 0 1 = Some w' \<and> get w' 0 = None \<and>
      deleted w' = [\<lparr>target = 1, as_type = C, dyn_type = C\<rparr>] \<and> heap w' = []"
    by (auto simp add: no_var_def)
  from assignment_destroys_then_clones [OF h1, of 1 fixture_copy C D 1 "\<lparr>dyn = C, val = 1\<rparr>"] v
  have 2: "\<exists>w'. opAssign_ptr fixture_copy C lhs_C1 0 None = Some w' \<and> get w' 0 = None \<and>
      deleted w' = [\<lparr>target = 1, as_type = C, dyn_type = C\<rparr>] \<and> heap w' = []"
    by (auto simp add: no_var_def)
  from assignment_destroys_then_clones [OF h2, of 1 fixture_copy D D 1 "\<lparr>dyn = D, val = 1\<rparr>"] u
  have 3: "\<exists>w'. opAssign_This fixture_copy D c_and_d 0 1 = Some w' \<and> get w' 0 = Some 2 \<and>
      pointee w' 0 = Some \<lparr>dyn = D, val = 1\<rparr> \<and> get w' 1 = Some 1 \<and> deleted w' = []"
    by (auto simp add: no_var_def fixture_copy_def fresh_def)
  from assignment_destroys_then_clones [OF h3, of 1 fixture_copy D D 1 "\<lparr>dyn = D, val = 1\<rparr>"] t
  have 4: "\<exists>w'. opAssign_ptr fixture_copy D dsp_and_dlp 0 (Some 1) = Some w' \<and> get w' 0 = Some 2 \<and>
      pointee w' 0 = Some \<lparr>dyn = D, val = 1\<rparr> \<and>
      map_of (heap w') 1 = Some \<lparr>dyn = D, val = 1\<rparr>"
    by (auto simp add: no_var_def fixture_copy_def fresh_def)
  from assignment_destroys_then_clones [OF h4, of 1 fixture_copy C D 1 "\<lparr>dyn = C, val = 1\<rparr>"] o
  have 5: "\<exists>w'. opAssign_This fixture_copy C two_owners 0 1 = Some w' \<and> get w' 0 = Some 2 \<and>
      heap w' = [(2, \<lparr>dyn = C, val = 1\<rparr>), (1, \<lparr>dyn = C, val = 1\<rparr>)] \<and>
      deleted w' = [\<lparr>target = 2, as_type = C, dyn_type = C\<rparr>]"
    by (auto simp add: fixture_copy_def fresh_def)
  from h1 1 2 3 4 5 show ?thesis by blast
qed

text \<open>
  C3 as stated fails on \<^verbatim>\<open>DeepCopyPtr<D> dsp; D *dlp = new D(1); dsp = dlp;\<close>:
  the raw pointer to non-const is not adopted. The held address is that of a
  new object, and the object behind \<^verbatim>\<open>dlp\<close> stays live and is not owned.
\<close>

theorem pointer_assignment_counterexample:
  "get dsp_and_dlp 0 = None \<and>
   opAssign_ptr fixture_copy D dsp_and_dlp 0 (Some 1) \<noteq> None \<and>
   get (the (opAssign_ptr fixture_copy D dsp_and_dlp 0 (Some 1))) 0 = Some 2 \<and>
   get (the (opAssign_ptr fixture_copy D dsp_and_dlp 0 (Some 1))) 0 \<noteq> Some 1 \<and>
   map_of (heap (the (opAssign_ptr fixture_copy D dsp_and_dlp 0 (Some 1)))) 1 = Some \<lparr>dyn = D, val = 1\<rparr>"
  by (simp add: dsp_and_dlp_def heap_D1_def no_var_def fixture_copy_def
        DeepCopyPtr_default_def opAssign_ptr_def get_def new_copy_def
        fresh_def put_var_def doDelete_def doDelete_obj_def Deleter_call_def)

end
